theory Spec2Isabelle
  imports Complex_Main
begin

section \<open>Numeric values and arrays\<close>

text \<open>
  The program computes on numpy arrays of IEEE doubles. A pixel value is modelled as a
  real number or one of the three special values a division or an overflowing operation
  can produce. Rounding and the sign of zero are not modelled: every finite operation is
  the exact operation on the reals. Division by zero, \<open>inf - inf\<close> and comparisons
  with \<open>nan\<close> behave as numpy does with its default error state (a warning, no
  exception).
\<close>

datatype fval = Fin real | PInf | NInf | NaN

definition inf_of_sign :: "real \<Rightarrow> fval" where
  "inf_of_sign s = (if 0 < s then PInf else if s < 0 then NInf else NaN)"

fun fsgn :: "fval \<Rightarrow> real" where
  "fsgn (Fin a) = sgn a"
| "fsgn PInf = 1"
| "fsgn NInf = - 1"
| "fsgn NaN = 0"

fun fneg :: "fval \<Rightarrow> fval" where
  "fneg (Fin a) = Fin (- a)"
| "fneg PInf = NInf"
| "fneg NInf = PInf"
| "fneg NaN = NaN"

fun fadd :: "fval \<Rightarrow> fval \<Rightarrow> fval" where
  "fadd (Fin a) (Fin b) = Fin (a + b)"
| "fadd NaN _ = NaN"
| "fadd _ NaN = NaN"
| "fadd PInf NInf = NaN"
| "fadd NInf PInf = NaN"
| "fadd PInf _ = PInf"
| "fadd _ PInf = PInf"
| "fadd NInf _ = NInf"
| "fadd _ NInf = NInf"

definition fsub :: "fval \<Rightarrow> fval \<Rightarrow> fval" where
  "fsub a b = fadd a (fneg b)"

fun fmul :: "fval \<Rightarrow> fval \<Rightarrow> fval" where
  "fmul (Fin a) (Fin b) = Fin (a * b)"
| "fmul NaN _ = NaN"
| "fmul _ NaN = NaN"
| "fmul a b = inf_of_sign (fsgn a * fsgn b)"

fun fdiv :: "fval \<Rightarrow> fval \<Rightarrow> fval" where
  "fdiv (Fin a) (Fin b) = (if b = 0 then inf_of_sign a else Fin (a / b))"
| "fdiv NaN _ = NaN"
| "fdiv _ NaN = NaN"
| "fdiv (Fin a) _ = Fin 0"
| "fdiv a (Fin b) = inf_of_sign (fsgn a * (if 0 \<le> b then 1 else - 1))"
| "fdiv _ _ = NaN"

fun fsqrt :: "fval \<Rightarrow> fval" where
  "fsqrt (Fin a) = (if a < 0 then NaN else Fin (sqrt a))"
| "fsqrt PInf = PInf"
| "fsqrt NInf = NaN"
| "fsqrt NaN = NaN"

text \<open>Comparisons: every comparison with \<open>nan\<close> is false.\<close>

fun flt :: "fval \<Rightarrow> fval \<Rightarrow> bool" where
  "flt (Fin a) (Fin b) = (a < b)"
| "flt NaN _ = False"
| "flt _ NaN = False"
| "flt NInf b = (b \<noteq> NInf)"
| "flt a PInf = (a \<noteq> PInf)"
| "flt _ _ = False"

definition fgt :: "fval \<Rightarrow> fval \<Rightarrow> bool" where
  "fgt a b = flt b a"

definition fle :: "fval \<Rightarrow> fval \<Rightarrow> bool" where
  "fle a b = (flt a b \<or> (a = b \<and> a \<noteq> NaN))"

text \<open>\<open>np.maximum\<close> on two values: \<open>nan\<close> wins.\<close>

definition fmax :: "fval \<Rightarrow> fval \<Rightarrow> fval" where
  "fmax a b = (if a = NaN \<or> b = NaN then NaN else if flt a b then b else a)"

text \<open>\<open>np.sum\<close> of a one-dimensional array.\<close>

definition fsum :: "fval list \<Rightarrow> fval" where
  "fsum xs = foldr fadd xs (Fin 0)"

type_synonym image = "fval list list"

datatype error =
    IndexError
  | ValueError string
  | AttributeError string
  | EinsumShapeError
  | LinAlgError

text \<open>Indexing a sequence with a Python integer: a negative index counts from the end,
  an index out of range raises \<open>IndexError\<close>.\<close>

definition py_index :: "'a list \<Rightarrow> int \<Rightarrow> error + 'a" where
  "py_index xs i =
     (if 0 \<le> i \<and> i < int (length xs) then Inr (xs ! nat i)
      else if - int (length xs) \<le> i \<and> i < 0 then Inr (xs ! nat (int (length xs) + i))
      else Inl IndexError)"

text \<open>Running a fallible function over a list, stopping at the first error.\<close>

fun map_err :: "('a \<Rightarrow> error + 'b) \<Rightarrow> 'a list \<Rightarrow> error + 'b list" where
  "map_err f [] = Inr []"
| "map_err f (x # xs) =
     (case f x of
        Inl e \<Rightarrow> Inl e
      | Inr y \<Rightarrow> (case map_err f xs of Inl e \<Rightarrow> Inl e | Inr ys \<Rightarrow> Inr (y # ys)))"

definition bind_err :: "error + 'a \<Rightarrow> ('a \<Rightarrow> error + 'b) \<Rightarrow> error + 'b" where
  "bind_err m f = (case m of Inl e \<Rightarrow> Inl e | Inr x \<Rightarrow> f x)"

text \<open>\<open>np.max\<close> of an array: a zero-size array has no maximum.\<close>

definition amax_list :: "fval list \<Rightarrow> error + fval" where
  "amax_list xs =
     (case xs of
        [] \<Rightarrow> Inl (ValueError ''zero-size array to reduction operation maximum which has no identity'')
      | x # ys \<Rightarrow> Inr (foldl fmax x ys))"

definition amax :: "image \<Rightarrow> error + fval" where
  "amax img = amax_list (concat img)"

text \<open>An in-place binary operation \<open>xs op= ys\<close> on one-dimensional arrays: \<open>ys\<close> has
  the length of \<open>xs\<close> or is broadcast from length one.\<close>

definition np_inplace :: "(fval \<Rightarrow> fval \<Rightarrow> fval) \<Rightarrow> fval list \<Rightarrow> fval list \<Rightarrow> error + fval list" where
  "np_inplace f xs ys =
     (if length ys = length xs then Inr (map2 f xs ys)
      else if length ys = 1 then Inr (map (\<lambda>x. f x (hd ys)) xs)
      else Inl (ValueError ''operands could not be broadcast together''))"

section \<open>Frames and observations\<close>

text \<open>
  The collaborators of the source module. A frame maps a sky position to a pixel, may
  hold a PSF model (the field is the PSF's \<open>image\<close> array, one image per channel) and
  knows its number of channels. An observation holds its images, optional
  inverse-variance weights and the images of its difference kernels;
  \<open>is_Observation\<close> records whether \<open>type(obs) is Observation\<close>, that is whether the
  observation lives in the pixel grid of the model frame.
\<close>

record 'sky frame =
  get_pixel :: "'sky \<Rightarrow> int \<times> int"
  psf :: "image list option"
  C :: int

record 'sky observation =
  is_Observation :: bool
  frame :: "'sky frame"
  images :: "image list"
  weights :: "image list option"
  diff_kernels :: "image list"

text \<open>
  The operators the module imports from files that are not part of the sources. Each is
  a parameter of the model and may raise. \<open>prox_weighted_monotonic\<close> takes the shape,
  the centre and \<open>min_gradient\<close> and returns the flattened image;
  \<open>starlet\<close> returns the coefficients (shape \<open>(1, levels, Ny, Nx)\<close>) and the norm of
  each level.
\<close>

record 'sky operators =
  interpolate_observation :: "'sky observation \<Rightarrow> 'sky frame \<Rightarrow> error + image list"
  prox_uncentered_symmetry :: "image \<Rightarrow> int \<times> int \<Rightarrow> error + image"
  prox_weighted_monotonic :: "nat \<times> nat \<Rightarrow> int \<times> int \<Rightarrow> fval \<Rightarrow> image \<Rightarrow> error + fval list"
  linalg_inv :: "fval list list \<Rightarrow> error + fval list list"
  starlet :: "image \<Rightarrow> error + (image list list \<times> fval list)"
  mad_wavelet :: "image list \<Rightarrow> error + fval list"

section \<open>SED estimator\<close>

text \<open>\<open>get_pixel_sed\<close>: the value of every channel at the pixel of the sky position,
  \<open>observation.images[:, pixel[0], pixel[1]]\<close>.\<close>

definition get_pixel_sed :: "'sky \<Rightarrow> 'sky observation \<Rightarrow> error + fval list" where
  "get_pixel_sed sky_coord observation =
     (let pixel = get_pixel (frame observation) sky_coord
      in map_err (\<lambda>img. bind_err (py_index img (fst pixel)) (\<lambda>row. py_index row (snd pixel)))
           (images observation))"

text \<open>\<open>get_psf_sed\<close>: the pixel SED, divided by the per-channel peak of the observation's
  PSF and multiplied by the peak of channel 0 of the model frame's PSF, each step taken
  only when that PSF exists.\<close>

definition get_psf_sed :: "'sky \<Rightarrow> 'sky observation \<Rightarrow> 'sky frame \<Rightarrow> error + fval list" where
  "get_psf_sed sky_coord observation model_frame =
     bind_err (get_pixel_sed sky_coord observation) (\<lambda>sed.
     bind_err
       (case psf (frame observation) of
          None \<Rightarrow> Inr sed
        | Some psf_image \<Rightarrow> bind_err (map_err amax psf_image) (np_inplace fdiv sed))
       (\<lambda>sed.
          case psf model_frame of
            None \<Rightarrow> Inr sed
          | Some psf_image \<Rightarrow>
              bind_err (py_index psf_image 0) (\<lambda>channel.
              bind_err (amax channel) (\<lambda>peak. Inr (map (\<lambda>x. fmul x peak) sed)))))"

section \<open>Coadd builder\<close>

text \<open>The accumulators of the loop of \<open>build_sed_coadd\<close>.\<close>

record coadd_acc =
  positive_img :: "image list"
  positive_bgrms :: "fval list"
  acc_weights :: "fval list"
  jacobian_args :: "fval list"

text \<open>One round of the loop, for observation \<open>obs\<close> at index \<open>i\<close>.\<close>

definition coadd_step ::
  "'sky operators \<Rightarrow> 'sky observation \<Rightarrow> fval list list \<Rightarrow> fval list list \<Rightarrow>
   nat \<times> 'sky observation \<Rightarrow> coadd_acc \<Rightarrow> error + coadd_acc" where
  "coadd_step ops obs_ref seds bg_rmses io acc =
     (let i = fst io; obs = snd io in
      bind_err (py_index seds (int i)) (\<lambda>sed.
      bind_err (py_index bg_rmses (int i)) (\<lambda>bg_rms.
      if list_ex (\<lambda>r. fle r (Fin 0)) bg_rms
      then Inl (ValueError ''bg_rms must be greater than zero in all channels'')
      else
        let positive = filter (\<lambda>c. fgt (sed ! c) (Fin 0)) [0..<length sed] in
        bind_err
          (if is_Observation obs
           then map_err (\<lambda>c. py_index (images obs) (int c)) positive
           else map_err (\<lambda>c. bind_err (interpolate_observation ops obs (frame obs_ref))
                                 (\<lambda>imgs. py_index imgs (int c))) positive)
          (\<lambda>imgs.
        bind_err (map_err (\<lambda>c. py_index bg_rms (int c)) positive) (\<lambda>rms.
        Inr \<lparr> positive_img = positive_img acc @ imgs,
              positive_bgrms = positive_bgrms acc @ rms,
              acc_weights = acc_weights acc @
                map2 (\<lambda>c r. fdiv (sed ! c) (fmul r r)) positive rms,
              jacobian_args = jacobian_args acc @
                map2 (\<lambda>c r. fdiv (fmul (sed ! c) (sed ! c)) (fmul r r)) positive rms \<rparr>)))))"

fun coadd_loop ::
  "'sky operators \<Rightarrow> 'sky observation \<Rightarrow> fval list list \<Rightarrow> fval list list \<Rightarrow>
   (nat \<times> 'sky observation) list \<Rightarrow> coadd_acc \<Rightarrow> error + coadd_acc" where
  "coadd_loop ops obs_ref seds bg_rmses [] acc = Inr acc"
| "coadd_loop ops obs_ref seds bg_rmses (io # rest) acc =
     bind_err (coadd_step ops obs_ref seds bg_rmses io acc)
       (coadd_loop ops obs_ref seds bg_rmses rest)"

text \<open>\<open>np.einsum("i,i...", w, imgs)\<close>: the sum of the images, image \<open>i\<close> scaled by
  \<open>w[i]\<close>. The images must share one shape. With no image at all numpy returns the
  0-dimensional array \<open>0.0\<close>, which is modelled as the empty image.\<close>

definition einsum :: "fval list \<Rightarrow> image list \<Rightarrow> error + image" where
  "einsum w imgs =
     (case imgs of
        [] \<Rightarrow> Inr []
      | img0 # _ \<Rightarrow>
          if list_all (\<lambda>img. map length img = map length img0) imgs
          then Inr (map (\<lambda>r. map (\<lambda>c. fsum (map2 (\<lambda>wi img. fmul wi (img ! r ! c)) w imgs))
                           [0..<length (img0 ! r)])
                      [0..<length img0])
          else Inl EinsumShapeError)"

text \<open>\<open>build_sed_coadd\<close>: the detection image and the noise cutoff.\<close>

definition build_sed_coadd ::
  "'sky operators \<Rightarrow> fval list list \<Rightarrow> fval list list \<Rightarrow> 'sky observation list \<Rightarrow>
   error + image \<times> fval" where
  "build_sed_coadd ops seds bg_rmses observations =
     (case find is_Observation observations of
        None \<Rightarrow> Inl IndexError
      | Some obs_ref \<Rightarrow>
          bind_err
            (coadd_loop ops obs_ref seds bg_rmses (enumerate 0 observations)
               \<lparr> positive_img = [], positive_bgrms = [], acc_weights = [], jacobian_args = [] \<rparr>)
            (\<lambda>acc.
          bind_err (einsum (acc_weights acc) (positive_img acc)) (\<lambda>summed.
            let normalization = fsum (jacobian_args acc);
                detect = map (map (\<lambda>x. fdiv x normalization)) summed;
                bg_cutoff =
                  fdiv (fsqrt (fsum (map2 (\<lambda>w r. fmul (fmul w w) (fmul r r))
                                      (acc_weights acc) (positive_bgrms acc))))
                       normalization
            in Inr (detect, bg_cutoff))))"

section \<open>Best-fit SEDs\<close>

text \<open>\<open>np.dot(A, B.T)\<close> for two-dimensional arrays: the rows of both must have one
  length.\<close>

definition matmul_T :: "fval list list \<Rightarrow> fval list list \<Rightarrow> error + fval list list" where
  "matmul_T A B =
     (if list_all (\<lambda>a. list_all (\<lambda>b. length a = length b) B) A
      then Inr (map (\<lambda>a. map (\<lambda>b. fsum (map2 fmul a b)) B) A)
      else Inl (ValueError ''shapes not aligned''))"

text \<open>\<open>get_best_fit_seds\<close>: the normal equations of \<open>min ||img - A S||\<close>. The matrix
  inverse is numpy's and a parameter of the model.\<close>

definition get_best_fit_seds ::
  "'sky operators \<Rightarrow> image list \<Rightarrow> image list \<Rightarrow> error + fval list list" where
  "get_best_fit_seds ops morphs imgs =
     (if morphs = [] \<or> imgs = [] then Inl (ValueError ''cannot reshape array'')
      else
        let morph_flat = map concat morphs;
            data = map concat imgs
        in bind_err (matmul_T morph_flat morph_flat) (\<lambda>gram.
           bind_err (linalg_inv ops gram) (\<lambda>gram_inv.
           bind_err (matmul_T morph_flat data) (\<lambda>md.
           matmul_T gram_inv (transpose md)))))"

section \<open>Bounding boxes\<close>

text \<open>
  Modelled from the spec: the class \<open>Box\<close> (the file \<open>bbox.py\<close> is not among the
  sources). The spec describes a bounding box as an axis-aligned integer region over
  pixel coordinates, optionally extended with a channel axis. A box is the list of its
  bounds \<open>(start, stop)\<close>, one pair per axis, as \<open>Box.from_bounds\<close> receives them.
\<close>

type_synonym box = "(int \<times> int) list"

text \<open>Modelled from the spec: \<open>Box.from_data\<close>, the tight bounding box of the pixels
  above \<open>min_value\<close>; the empty box at the origin when there is none.\<close>

definition box_from_data :: "image \<Rightarrow> fval \<Rightarrow> box" where
  "box_from_data X min_value =
     (let rows = filter (\<lambda>r. list_ex (\<lambda>x. fgt x min_value) (X ! r)) [0..<length X];
          cols = filter (\<lambda>c. list_ex (\<lambda>row. c < length row \<and> fgt (row ! c) min_value) X)
                   [0..<(case X of [] \<Rightarrow> 0 | row # _ \<Rightarrow> length row)]
      in if rows = [] \<or> cols = [] then [(0, 0), (0, 0)]
         else [(int (hd rows), int (last rows) + 1), (int (hd cols), int (last cols) + 1)])"

text \<open>Modelled from the spec: \<open>Box.contains\<close>, whether a pixel lies inside the box
  (start inclusive, stop exclusive).\<close>

definition box_contains :: "box \<Rightarrow> int list \<Rightarrow> bool" where
  "box_contains b p = list_all2 (\<lambda>bound x. fst bound \<le> x \<and> x < snd bound) b p"

text \<open>Modelled from the spec: \<open>Box.extract_from\<close>, the part of an image that the
  box covers, as an array of the shape of the box; where the box reaches beyond the
  image the result is zero.\<close>

definition pixel_or_zero :: "image \<Rightarrow> int \<Rightarrow> int \<Rightarrow> fval" where
  "pixel_or_zero img y x =
     (if 0 \<le> y \<and> y < int (length img) \<and> 0 \<le> x \<and> x < int (length (img ! nat y))
      then img ! nat y ! nat x else Fin 0)"

definition extract_from :: "box \<Rightarrow> image \<Rightarrow> image" where
  "extract_from b img =
     (let ys = b ! 0; xs = b ! 1
      in map (\<lambda>i. map (\<lambda>j. pixel_or_zero img (fst ys + int i) (fst xs + int j))
                    [0..<nat (snd xs - fst xs)])
           [0..<nat (snd ys - fst ys)])"

definition extract_from3 :: "box \<Rightarrow> image list \<Rightarrow> image list" where
  "extract_from3 b imgs =
     (let cs = b ! 0
      in map (\<lambda>k. let c = fst cs + int k
                  in extract_from (tl b) (if 0 \<le> c \<and> c < int (length imgs) then imgs ! nat c else []))
           [0..<nat (snd cs - fst cs)])"

section \<open>Morphology constructor\<close>

text \<open>The loop \<open>while boxsize < size: boxsize *= 2\<close>.\<close>

partial_function (option) grow_boxsize :: "int \<Rightarrow> int \<Rightarrow> int option" where
  "grow_boxsize boxsize sz =
     (if boxsize < sz then grow_boxsize (boxsize * 2) sz else Some boxsize)"

text \<open>The end of \<open>trim_morphology\<close>: the box of side \<open>boxsize\<close> around the centre, the
  morphology cut to it, and the box extended by the channel axis.\<close>

definition trim_to_box :: "'sky frame \<Rightarrow> int \<times> int \<Rightarrow> image \<Rightarrow> int \<Rightarrow> image \<times> box" where
  "trim_to_box model_frame pixel_center morph boxsize =
     (let bottom = fst pixel_center - boxsize div 2;
          top = fst pixel_center + boxsize div 2;
          left = snd pixel_center - boxsize div 2;
          right = snd pixel_center + boxsize div 2;
          bbox = [(bottom, top), (left, right)];
          morph = extract_from bbox morph;
          bbox_3d = [(0, C model_frame), (bottom, top), (left, right)]
      in (morph, bbox_3d))"

text \<open>\<open>trim_morphology\<close>. The result is \<open>None\<close> if the loop does not return,
  \<open>Some (Inl e)\<close> if the function raises.\<close>

definition trim_morphology ::
  "'sky \<Rightarrow> 'sky frame \<Rightarrow> image \<Rightarrow> fval \<Rightarrow> fval \<Rightarrow> (error + image \<times> box) option" where
  "trim_morphology sky_coord model_frame morph bg_cutoff thresh =
     (let mask = map (map (\<lambda>x. fgt x (fmul bg_cutoff thresh))) morph;
          boxsize = 16;
          pixel_center = get_pixel model_frame sky_coord
      in if list_ex (list_ex id) mask then
           let morph = map2 (map2 (\<lambda>m x. if m then x else Fin 0)) mask morph in
           case bind_err (py_index morph (fst pixel_center))
                  (\<lambda>row. py_index row (snd pixel_center)) of
             Inl e \<Rightarrow> Some (Inl e)
           | Inr center_morph \<Rightarrow>
               let morph = map (map (\<lambda>x. fdiv x center_morph)) morph;
                   bbox = box_from_data morph (Fin 0)
               in if box_contains bbox [fst pixel_center, snd pixel_center] then
                    let sz = 2 * max (fst pixel_center - fst (bbox ! 0))
                                  (max (snd (bbox ! 0) - fst pixel_center)
                                  (max (snd pixel_center - fst (bbox ! 1))
                                       (snd (bbox ! 1) - snd pixel_center)))
                    in case grow_boxsize boxsize sz of
                         None \<Rightarrow> None
                       | Some boxsize \<Rightarrow>
                           Some (Inr (trim_to_box model_frame pixel_center morph boxsize))
                  else Some (Inr (trim_to_box model_frame pixel_center morph boxsize))
         else Some (Inr (trim_to_box model_frame pixel_center morph boxsize)))"

definition bind_opt :: "error + 'a \<Rightarrow> ('a \<Rightarrow> (error + 'b) option) \<Rightarrow> (error + 'b) option" where
  "bind_opt m f = (case m of Inl e \<Rightarrow> Some (Inl e) | Inr x \<Rightarrow> f x)"

definition bind_res ::
  "(error + 'a) option \<Rightarrow> ('a \<Rightarrow> (error + 'b) option) \<Rightarrow> (error + 'b) option" where
  "bind_res m f = (case m of None \<Rightarrow> None | Some (Inl e) \<Rightarrow> Some (Inl e) | Some (Inr x) \<Rightarrow> f x)"

definition map_res :: "('a \<Rightarrow> 'b) \<Rightarrow> (error + 'a) option \<Rightarrow> (error + 'b) option" where
  "map_res f m = map_option (map_sum id f) m"

text \<open>The background RMS of every channel of every observation,
  \<open>1 / sqrt(w[w > 0].mean())\<close>. Any failure (weights that are missing) is turned into
  the \<open>AttributeError\<close> of the \<open>except\<close> clause.\<close>

definition weights_rms :: "'sky observation list \<Rightarrow> error + fval list list" where
  "weights_rms observations =
     map_err (\<lambda>obs.
        case weights obs of
          None \<Rightarrow> Inl (AttributeError ''Observation.weights missing! Please set inverse variance weights'')
        | Some ws \<Rightarrow>
            Inr (map (\<lambda>w. let sel = filter (\<lambda>x. fgt x (Fin 0)) (concat w)
                          in fdiv (Fin 1) (fsqrt (fdiv (fsum sel) (Fin (real (length sel))))))
                   ws))
       observations"

text \<open>Lines 216-229 of \<open>init_extended_source\<close>: the detection image and its cutoff,
  built from the weights when no coadd is passed.\<close>

definition detection_coadd ::
  "'sky operators \<Rightarrow> fval list list \<Rightarrow> 'sky observation list \<Rightarrow> image option \<Rightarrow> fval option \<Rightarrow>
   error + image \<times> fval" where
  "detection_coadd ops seds observations coadd bg_cutoff =
     (case coadd of
        None \<Rightarrow>
          bind_err (weights_rms observations) (\<lambda>bg_rms.
            build_sed_coadd ops seds bg_rms observations)
      | Some coadd \<Rightarrow>
          (case bg_cutoff of
             None \<Rightarrow> Inl (AttributeError ''background cutoff missing! Please set argument bg_cutoff'')
           | Some bg_cutoff \<Rightarrow> Inr (coadd, bg_cutoff)))"

definition shape2 :: "image \<Rightarrow> nat \<times> nat" where
  "shape2 img = (length img, case img of [] \<Rightarrow> 0 | row # _ \<Rightarrow> length row)"

definition reshape2 :: "nat \<times> nat \<Rightarrow> fval list \<Rightarrow> error + image" where
  "reshape2 shape flat =
     (if length flat = fst shape * snd shape
      then Inr (map (\<lambda>r. take (snd shape) (drop (r * snd shape) flat)) [0..<fst shape])
      else Inl (ValueError ''cannot reshape array''))"

text \<open>Lines 231-244 of \<open>init_extended_source\<close>: the optional symmetry and
  monotonicity projections of the coadd.\<close>

definition project_morph ::
  "'sky operators \<Rightarrow> int \<times> int \<Rightarrow> image \<Rightarrow> bool \<Rightarrow> bool \<Rightarrow> fval \<Rightarrow> error + image" where
  "project_morph ops center coadd symmetric monotonic min_grad =
     bind_err
       (if symmetric
        then prox_uncentered_symmetry ops (map (map (\<lambda>x. fmul x (Fin 1))) coadd) center
        else Inr coadd)
       (\<lambda>morph.
          if monotonic
          then bind_err (prox_weighted_monotonic ops (shape2 morph) center min_grad morph)
                 (reshape2 (shape2 morph))
          else Inr morph)"

text \<open>\<open>init_extended_source\<close>. The warning on a non-positive SED changes no value and is
  left out.\<close>

definition init_extended_source ::
  "'sky operators \<Rightarrow> 'sky \<Rightarrow> 'sky frame \<Rightarrow> 'sky observation list \<Rightarrow> image option \<Rightarrow> fval option \<Rightarrow>
   fval \<Rightarrow> bool \<Rightarrow> bool \<Rightarrow> fval \<Rightarrow> (error + fval list \<times> image \<times> box) option" where
  "init_extended_source ops sky_coord model_frame observations coadd bg_cutoff thresh
     symmetric monotonic min_grad =
     bind_opt (map_err (\<lambda>obs. get_psf_sed sky_coord obs model_frame) observations) (\<lambda>seds.
     bind_opt (if seds = [] then Inl (ValueError ''need at least one array to concatenate'')
               else Inr (concat seds)) (\<lambda>sed.
     bind_opt (detection_coadd ops seds observations coadd bg_cutoff) (\<lambda>(coadd, bg_cutoff).
     bind_opt (project_morph ops (get_pixel model_frame sky_coord) coadd symmetric monotonic min_grad)
       (\<lambda>morph.
     map_res (\<lambda>(morph, bbox). (sed, morph, bbox))
       (trim_morphology sky_coord model_frame morph bg_cutoff thresh)))))"

section \<open>Multi-component splitter\<close>

text \<open>One round of the loop over \<open>k\<close> in lines 300-306: the pixels above the flux
  threshold are capped in layer \<open>k - 1\<close> and their remainder goes to layer \<open>k\<close>.\<close>

definition layer_step ::
  "image \<Rightarrow> fval \<Rightarrow> real list \<Rightarrow> image list \<times> fval \<Rightarrow> nat \<Rightarrow> image list \<times> fval" where
  "layer_step morph max_flux percentiles st k =
     (let morphs = fst st; last_thresh = snd st;
          perc = percentiles ! (k - 1);
          flux_thresh = fdiv (fmul (Fin perc) max_flux) (Fin 100);
          mask = map (map (\<lambda>x. fgt x flux_thresh)) morph;
          morphs = morphs[k - 1 :=
            map2 (map2 (\<lambda>m x. if m then fsub flux_thresh last_thresh else x)) mask
              (morphs ! (k - 1))];
          morphs = morphs[k :=
            map2 (map2 (\<lambda>m xy. if m then fsub (snd xy) flux_thresh else fst xy)) mask
              (map2 zip (morphs ! k) morph)]
      in (morphs, flux_thresh))"

text \<open>Lines 292-306 of \<open>init_multicomponent_source\<close>: the layers before they are
  renormalised.\<close>

definition layer_morphs :: "image \<Rightarrow> real list \<Rightarrow> error + image list" where
  "layer_morphs morph flux_percentiles =
     (let K = length flux_percentiles + 1;
          morphs = morph # replicate (K - 1) (map (map (\<lambda>_. Fin 0)) morph)
      in bind_err (amax morph) (\<lambda>max_flux.
           let percentiles = sort flux_percentiles
           in Inr (fst (foldl (layer_step morph max_flux percentiles) (morphs, Fin 0) [1..<K]))))"

text \<open>Lines 309-313: every layer is divided by its own maximum. The warning on a
  non-positive layer changes no value and is left out.\<close>

definition renormalize :: "image list \<Rightarrow> error + image list" where
  "renormalize morphs =
     map_err (\<lambda>m. bind_err (amax m) (\<lambda>peak. Inr (map (map (\<lambda>x. fdiv x peak)) m))) morphs"

definition multicomponent_morphs :: "image \<Rightarrow> real list \<Rightarrow> error + image list" where
  "multicomponent_morphs morph flux_percentiles =
     bind_err (layer_morphs morph flux_percentiles) renormalize"

text \<open>\<open>np.sum(morphs, axis=0)\<close>: the pixelwise sum of a list of layers of one shape.\<close>

definition layers_sum :: "image list \<Rightarrow> image" where
  "layers_sum morphs =
     (case morphs of
        [] \<Rightarrow> []
      | m0 # _ \<Rightarrow>
          map (\<lambda>r. map (\<lambda>c. fsum (map (\<lambda>m. m ! r ! c) morphs)) [0..<length (m0 ! r)])
            [0..<length m0])"

text \<open>\<open>init_multicomponent_source\<close>.\<close>

definition init_multicomponent_source ::
  "'sky operators \<Rightarrow> 'sky \<Rightarrow> 'sky frame \<Rightarrow> 'sky observation list \<Rightarrow> image option \<Rightarrow> fval option \<Rightarrow>
   real list option \<Rightarrow> fval \<Rightarrow> bool \<Rightarrow> bool \<Rightarrow> fval \<Rightarrow>
   (error + fval list list \<times> image list \<times> box) option" where
  "init_multicomponent_source ops sky_coord model_frame observations coadd bg_cutoff
     flux_percentiles thresh symmetric monotonic min_grad =
     (case find is_Observation observations of
        None \<Rightarrow> Some (Inl IndexError)
      | Some obs_ref \<Rightarrow>
          let flux_percentiles = (case flux_percentiles of None \<Rightarrow> [25] | Some ps \<Rightarrow> ps) in
          bind_res
            (init_extended_source ops sky_coord model_frame observations coadd bg_cutoff thresh
               symmetric monotonic min_grad)
            (\<lambda>(sed, morph, bbox).
          bind_opt (multicomponent_morphs morph flux_percentiles) (\<lambda>morphs.
          bind_opt (get_best_fit_seds ops morphs (extract_from3 bbox (images obs_ref))) (\<lambda>seds.
          Some (Inr (seds, morphs, bbox))))))"

section \<open>Constraint assembly\<close>

text \<open>The value of the \<open>monotonic\<close> argument, which Python leaves untyped: a legacy
  boolean, a string naming the neighbour weighting, or \<open>None\<close>.\<close>

datatype py_arg = PyBool bool | PyStr string | PyNone

datatype constraint =
    PositivityConstraint
  | MonotonicityConstraint py_arg fval
  | SymmetryConstraint
  | NormalizationConstraint string
  | CenterOnConstraint
  | L0Constraint "fval list list list list"
  | ConstraintChain "constraint list"

text \<open>The backwards-compatibility shim of \<open>ExtendedSource.__init__\<close> and
  \<open>MultiComponentSource.__init__\<close>: \<open>monotonic is True\<close> becomes \<open>"angle"\<close>,
  \<open>monotonic is False\<close> becomes \<open>None\<close>.\<close>

definition monotonic_shim :: "py_arg \<Rightarrow> py_arg" where
  "monotonic_shim monotonic =
     (if monotonic = PyBool True then PyStr ''angle''
      else if monotonic = PyBool False then PyNone
      else monotonic)"

text \<open>\<open>ExtendedSource.__init__\<close>, the constraint list of the morphology parameter.\<close>

definition extended_morph_constraint :: "py_arg \<Rightarrow> bool \<Rightarrow> fval \<Rightarrow> constraint" where
  "extended_morph_constraint monotonic symmetric min_grad =
     (let constraints = [];
          monotonic = monotonic_shim monotonic;
          constraints =
            (if monotonic \<noteq> PyNone
             then constraints @ [MonotonicityConstraint monotonic min_grad]
             else constraints);
          constraints = (if symmetric then constraints @ [SymmetryConstraint] else constraints);
          constraints = constraints @ [PositivityConstraint, NormalizationConstraint ''max'']
      in ConstraintChain constraints)"

text \<open>\<open>MultiComponentSource.__init__\<close>, the constraint list: the same with the
  centre-on constraint before the normalisation.\<close>

definition multicomponent_morph_constraint :: "py_arg \<Rightarrow> bool \<Rightarrow> fval \<Rightarrow> constraint" where
  "multicomponent_morph_constraint monotonic symmetric min_grad =
     (let constraints = [];
          monotonic = monotonic_shim monotonic;
          constraints =
            (if monotonic \<noteq> PyNone
             then constraints @ [MonotonicityConstraint monotonic min_grad]
             else constraints);
          constraints = (if symmetric then constraints @ [SymmetryConstraint] else constraints);
          constraints = constraints @
            [PositivityConstraint, CenterOnConstraint, NormalizationConstraint ''max'']
      in ConstraintChain constraints)"

section \<open>Archetype builders\<close>

text \<open>\<open>Parameter\<close> (parameter.py): an array with its constraint and step rule. The
  step is a constant or \<open>partial(relative_step, factor=f)\<close>. The other attributes
  are at their defaults in every parameter the builders create.\<close>

datatype step_rule = ConstStep real | RelativeStep real

record 'a parameter =
  p_array :: 'a
  p_constraint :: "constraint option"
  p_step :: step_rule

text \<open>What a builder hands to \<open>FactorizedComponent.__init__\<close>.\<close>

record 'sky factorized_component =
  fc_frame :: "'sky frame"
  fc_bbox :: box
  fc_sed :: "fval list parameter"
  fc_morph :: "image parameter"
  fc_shift :: "fval list parameter option"
  fc_pixel_center :: "int \<times> int"

text \<open>The shift parameter: \<open>center - pixel_center\<close> is zero on both axes, since the
  frame returns integer pixels.\<close>

definition shift_parameter :: "bool \<Rightarrow> fval list parameter option" where
  "shift_parameter shifting =
     (if shifting
      then Some \<lparr> p_array = [Fin 0, Fin 0], p_constraint = None, p_step = ConstStep (1 / 10) \<rparr>
      else None)"

text \<open>\<open>ExtendedSource.__init__\<close>.\<close>

definition ExtendedSource_init ::
  "'sky operators \<Rightarrow> 'sky frame \<Rightarrow> 'sky \<Rightarrow> 'sky observation list \<Rightarrow> image option \<Rightarrow> fval option \<Rightarrow>
   fval \<Rightarrow> py_arg \<Rightarrow> bool \<Rightarrow> bool \<Rightarrow> fval \<Rightarrow> (error + 'sky factorized_component) option" where
  "ExtendedSource_init ops model_frame sky_coord observations coadd bg_cutoff thresh
     monotonic symmetric shifting min_grad =
     (let pixel_center = get_pixel model_frame sky_coord;
          shift = shift_parameter shifting
      in map_res (\<lambda>(sed, morph, bbox).
           \<lparr> fc_frame = model_frame, fc_bbox = bbox,
             fc_sed = \<lparr> p_array = sed, p_constraint = Some PositivityConstraint,
                        p_step = RelativeStep (1 / 100) \<rparr>,
             fc_morph = \<lparr> p_array = morph,
                          p_constraint = Some (extended_morph_constraint monotonic symmetric min_grad),
                          p_step = ConstStep (1 / 100) \<rparr>,
             fc_shift = shift, fc_pixel_center = pixel_center \<rparr>)
           (init_extended_source ops sky_coord model_frame observations coadd bg_cutoff thresh
              True True min_grad))"

text \<open>\<open>MultiComponentSource.__init__\<close>: the component tree with the attributes the
  constructor stores.\<close>

record 'sky multicomponent_source =
  mc_symmetric :: bool
  mc_monotonic :: py_arg
  mc_coords :: 'sky
  mc_components :: "'sky factorized_component list"

definition MultiComponentSource_init ::
  "'sky operators \<Rightarrow> 'sky frame \<Rightarrow> 'sky \<Rightarrow> 'sky observation list \<Rightarrow> fval \<Rightarrow> image option \<Rightarrow>
   fval option \<Rightarrow> real list option \<Rightarrow> bool \<Rightarrow> py_arg \<Rightarrow> bool \<Rightarrow> fval \<Rightarrow>
   (error + 'sky multicomponent_source) option" where
  "MultiComponentSource_init ops model_frame sky_coord observations thresh coadd bg_cutoff
     flux_percentiles symmetric monotonic shifting min_grad =
     (let pixel_center = get_pixel model_frame sky_coord;
          shift = shift_parameter shifting
      in map_res (\<lambda>(seds, morphs, bbox).
           let morph_constraint = multicomponent_morph_constraint monotonic symmetric min_grad
           in \<lparr> mc_symmetric = symmetric, mc_monotonic = monotonic, mc_coords = sky_coord,
                mc_components =
                  map (\<lambda>k.
                    \<lparr> fc_frame = model_frame, fc_bbox = bbox,
                      fc_sed = \<lparr> p_array = seds ! k, p_constraint = Some PositivityConstraint,
                                 p_step = RelativeStep (1 / 10) \<rparr>,
                      fc_morph = \<lparr> p_array = morphs ! k, p_constraint = Some morph_constraint,
                                   p_step = ConstStep (1 / 100) \<rparr>,
                      fc_shift = shift, fc_pixel_center = pixel_center \<rparr>)
                    [0..<length seds] \<rparr>)
           (init_multicomponent_source ops sky_coord model_frame observations None bg_cutoff
              flux_percentiles thresh True True min_grad))"








section \<open>Notions used in the statements\<close>

text \<open>The side lengths of a box.\<close>

definition box_shape :: "box \<Rightarrow> int list" where
  "box_shape b = map (\<lambda>bound. snd bound - fst bound) b"

text \<open>What is expected of the result of \<open>trim_morphology\<close>: the box spans the channels
  of the frame and a square of side \<open>16 * 2 ^ n\<close>, the trimmed morphology has that
  shape, and the spatial box contains the centre pixel.\<close>

definition good_box :: "'sky frame \<Rightarrow> int \<times> int \<Rightarrow> image \<times> box \<Rightarrow> bool" where
  "good_box mf pc mb =
     ((\<exists>n. box_shape (snd mb) = [C mf, 16 * 2 ^ n, 16 * 2 ^ n] \<and>
           length (fst mb) = 16 * 2 ^ n \<and> list_all (\<lambda>row. length row = 16 * 2 ^ n) (fst mb))
      \<and> box_contains (tl (snd mb)) [fst pc, snd pc])"

text \<open>
  The closed form of the layers that the loop of \<open>init_multicomponent_source\<close> builds,
  pixel by pixel. For flux thresholds \<open>ts\<close> of which the first \<open>n\<close> have been processed,
  \<open>layer_value ts n k x\<close> is the value of layer \<open>k\<close> at a pixel of value \<open>x\<close>:
  a layer below the top one is capped at the difference of its two thresholds, the top
  layer holds what exceeds the last threshold, the layers above are still zero.
\<close>

definition lower_thresh :: "real list \<Rightarrow> nat \<Rightarrow> real" where
  "lower_thresh ts k = (if k = 0 then 0 else ts ! (k - 1))"

definition top_layer :: "real list \<Rightarrow> nat \<Rightarrow> real \<Rightarrow> real" where
  "top_layer ts k x =
     (if k = 0 then x else if ts ! (k - 1) < x then x - ts ! (k - 1) else 0)"

definition layer_value :: "real list \<Rightarrow> nat \<Rightarrow> nat \<Rightarrow> real \<Rightarrow> real" where
  "layer_value ts n k x =
     (if k < n then (if ts ! k < x then ts ! k - lower_thresh ts k else top_layer ts k x)
      else if k = n then top_layer ts k x
      else 0)"

text \<open>
  The images of the channels of an observation in the grid of the reference
  observation, as the loop of \<open>build_sed_coadd\<close> reads them: its own images, or the
  interpolated ones.
\<close>

definition channel_images ::
  "'sky operators \<Rightarrow> 'sky observation \<Rightarrow> 'sky observation \<Rightarrow> error + image list" where
  "channel_images ops obs_ref ob =
     (if is_Observation ob then Inr (images ob) else interpolate_observation ops ob (frame obs_ref))"

text \<open>
  A call of \<open>build_sed_coadd\<close> whose arguments fit together: one SED and one RMS
  vector for every observation, an RMS entry and an image for every channel of the SED,
  and an observation in the grid of the model frame to serve as the reference.
\<close>

definition coadd_call_ok ::
  "'sky operators \<Rightarrow> fval list list \<Rightarrow> fval list list \<Rightarrow> 'sky observation list \<Rightarrow> bool" where
  "coadd_call_ok ops seds bg_rmses observations =
     (length seds = length observations \<and> length bg_rmses = length observations \<and>
      (\<exists>obs_ref. find is_Observation observations = Some obs_ref \<and>
         (\<forall>j < length observations.
            length (bg_rmses ! j) = length (seds ! j) \<and>
            (\<exists>imgs. channel_images ops obs_ref (observations ! j) = Inr imgs \<and>
                    length (seds ! j) \<le> length imgs))))"

section \<open>A worked example\<close>

text \<open>
  One observation of one channel and one row, \<open>[1, 1/2]\<close>, in the grid of the model
  frame, whose sky position is the pixel \<open>(0, 0)\<close>; no PSF. The operators of the
  example: the two projections leave the image as it is, the matrix inverse is the
  closed form for one and two components, the wavelet transform returns two levels.
\<close>

definition ex_inv :: "fval list list \<Rightarrow> error + fval list list" where
  "ex_inv A =
     (case A of
        [[a]] \<Rightarrow> Inr [[fdiv (Fin 1) a]]
      | [[a, b], [c, d]] \<Rightarrow>
          (let det = fsub (fmul a d) (fmul b c)
           in if det = Fin 0 then Inl LinAlgError
              else Inr [[fdiv d det, fdiv (fneg b) det], [fdiv (fneg c) det, fdiv a det]])
      | _ \<Rightarrow> Inl LinAlgError)"

definition ex_ops :: "unit operators" where
  "ex_ops =
     \<lparr> interpolate_observation = (\<lambda>obs fr. Inr (images obs)),
       prox_uncentered_symmetry = (\<lambda>img c. Inr img),
       prox_weighted_monotonic = (\<lambda>shape c g img. Inr (concat img)),
       linalg_inv = ex_inv,
       starlet = (\<lambda>img. Inr ([[img, img]], [Fin 1, Fin 1])),
       mad_wavelet = (\<lambda>imgs. Inr (map (\<lambda>_. Fin 1) imgs)) \<rparr>"

definition ex_frame :: "unit frame" where
  "ex_frame = \<lparr> get_pixel = (\<lambda>_. (0, 0)), psf = None, C = 1 \<rparr>"

definition ex_obs :: "unit observation" where
  "ex_obs =
     \<lparr> is_Observation = True, frame = ex_frame, images = [[[Fin 1, Fin (1 / 2)]]],
       weights = Some [[[Fin 1, Fin 1]]], diff_kernels = [[[Fin 1]]] \<rparr>"

text \<open>The morphology of the example after trimming: the two pixels in a box of side 16
  around the centre.\<close>

definition ex_morph :: image where
  "ex_morph = (replicate 16 (replicate 16 (Fin 0)))
                [8 := (replicate 16 (Fin 0))[8 := Fin 1, 9 := Fin (1 / 2)]]"

text \<open>The two layers that \<open>init_multicomponent_source\<close> returns for it at the
  percentile 25.\<close>

definition ex_layer0 :: image where
  "ex_layer0 = (replicate 16 (replicate 16 (Fin 0)))
                [8 := (replicate 16 (Fin 0))[8 := Fin 1, 9 := Fin 1]]"

definition ex_layer1 :: image where
  "ex_layer1 = (replicate 16 (replicate 16 (Fin 0)))
                [8 := (replicate 16 (Fin 0))[8 := Fin 1, 9 := Fin (1 / 3)]]"


section \<open>Lemmas\<close>

lemma detection_coadd_None:
  "detection_coadd ops seds observations None bg = detection_coadd ops seds observations None None"
  by (simp add: detection_coadd_def)

lemma init_extended_source_None:
  "init_extended_source ops sky mf obs None bg thresh symm monot g =
   init_extended_source ops sky mf obs None None thresh symm monot g"
  by (simp add: init_extended_source_def detection_coadd_def)

lemma init_multicomponent_source_None:
  "init_multicomponent_source ops sky mf obs None bg ps thresh symm monot g =
   init_multicomponent_source ops sky mf obs None None ps thresh symm monot g"
  unfolding init_multicomponent_source_def init_extended_source_None [of _ _ _ _ bg] ..

lemma map_res_map_res: "map_res f (map_res h m) = map_res (f \<circ> h) m"
proof (cases m)
  case None
  then show ?thesis by (simp add: map_res_def)
next
  case (Some a)
  then show ?thesis by (cases a) (simp_all add: map_res_def)
qed

lemma map_res_id: "(\<And>x. f x = x) \<Longrightarrow> map_res f m = m"
  by (cases m) (auto simp: map_res_def map_sum_def split: sum.splits)

lemma upt_16: "[0..<16] = [0, 1, 2, 3, 4, 5, 6, 7, 8, 9, 10, 11, 12, 13, 14, 15]"
  by code_simp

lemma replicate_16: "replicate 16 x = [x, x, x, x, x, x, x, x, x, x, x, x, x, x, x, x]"
  by (simp add: numeral_eq_Suc)

lemma grow16: "grow_boxsize 16 4 = Some 16"
  by (simp add: grow_boxsize.simps)

lemma grow_boxsize_pow2: "0 < b \<Longrightarrow> \<exists>n. grow_boxsize b sz = Some (b * 2 ^ n)"
proof (induction "nat (sz - b)" arbitrary: b rule: less_induct)
  case less
  show ?case
  proof (cases "b < sz")
    case True
    with less.prems have "nat (sz - b * 2) < nat (sz - b)" and "0 < b * 2"
      by simp_all
    from less.hyps [OF this] obtain n where "grow_boxsize (b * 2) sz = Some (b * 2 * 2 ^ n)"
      by blast
    with True have "grow_boxsize b sz = Some (b * 2 ^ Suc n)"
      by (subst grow_boxsize.simps) simp
    then show ?thesis by blast
  next
    case False
    then have "grow_boxsize b sz = Some (b * 2 ^ 0)"
      by (subst grow_boxsize.simps) simp
    then show ?thesis by blast
  qed
qed

lemma grow_boxsize_reaches: "grow_boxsize b sz = Some b' \<Longrightarrow> 0 < b \<Longrightarrow> sz \<le> b'"
proof (induction "nat (sz - b)" arbitrary: b rule: less_induct)
  case less
  show ?case
  proof (cases "b < sz")
    case True
    with less.prems have lt: "nat (sz - b * 2) < nat (sz - b)" and pos: "0 < b * 2"
      by simp_all
    from less.prems(1) True have "grow_boxsize (b * 2) sz = Some b'"
      by (subst (asm) grow_boxsize.simps) simp
    from less.hyps [OF lt this pos] show ?thesis .
  next
    case False
    with less.prems(1) show ?thesis
      by (subst (asm) grow_boxsize.simps) simp
  qed
qed

lemma trim_to_box_good: "good_box mf pc (trim_to_box mf pc m (16 * 2 ^ n))"
proof -
  have half: "(16 * 2 ^ n) div 2 = (8 * 2 ^ n :: int)" by simp
  have pos: "(0::int) < 8 * 2 ^ n" by simp
  have len: "nat (16 * 2 ^ n) = 16 * 2 ^ n"
    by (simp add: nat_mult_distrib nat_power_eq)
  show ?thesis
    unfolding good_box_def trim_to_box_def Let_def half
    using pos
    by (auto simp: box_shape_def box_contains_def extract_from_def list_all_iff len
        intro!: exI [of _ n])
qed

lemma py_index_Inl: "py_index xs i = Inl e \<Longrightarrow> e = IndexError"
  by (simp add: py_index_def Let_def split: if_splits)

lemma py_index2_Inl:
  "bind_err (py_index m i) (\<lambda>row. py_index row j) = Inl e \<Longrightarrow> e = IndexError"
  by (auto simp: bind_err_def dest: py_index_Inl split: sum.splits)







lemma ex_trim:
  "trim_morphology () ex_frame [[Fin 1, Fin (1 / 2)]] (Fin (1 / 4)) (Fin 1)
   = Some (Inr (ex_morph, [(0, 1), (- 8, 8), (- 8, 8)]))"
  by (simp add: trim_morphology_def ex_frame_def Let_def fgt_def py_index_def bind_err_def
     box_from_data_def box_contains_def grow16 trim_to_box_def extract_from_def pixel_or_zero_def
     upt_16 ex_morph_def replicate_16)

lemma ex_frame_simps:
  "get_pixel ex_frame s = (0, 0)" "psf ex_frame = None" "C ex_frame = 1"
  by (simp_all add: ex_frame_def)

lemma ex_obs_simps:
  "is_Observation ex_obs" "frame ex_obs = ex_frame" "images ex_obs = [[[Fin 1, Fin (1 / 2)]]]"
  "weights ex_obs = Some [[[Fin 1, Fin 1]]]" "diff_kernels ex_obs = [[[Fin 1]]]"
  by (simp_all add: ex_obs_def)

lemma ex_extended:
  "init_extended_source ex_ops () ex_frame [ex_obs] (Some [[Fin 1, Fin (1 / 2)]]) (Some (Fin (1 / 4)))
     (Fin 1) False False (Fin (1 / 5))
   = Some (Inr ([Fin 1], ex_morph, [(0, 1), (- 8, 8), (- 8, 8)]))"
  by (simp add: init_extended_source_def get_psf_sed_def get_pixel_sed_def bind_err_def bind_opt_def
      detection_coadd_def project_morph_def ex_trim map_res_def py_index_def ex_obs_simps ex_frame_simps)

lemma ex_layers:
  "multicomponent_morphs ex_morph [25] = Inr [ex_layer0, ex_layer1]"
  by (simp add: multicomponent_morphs_def layer_morphs_def renormalize_def layer_step_def amax_def
    amax_list_def fmax_def fgt_def fsub_def bind_err_def Let_def ex_morph_def ex_layer0_def ex_layer1_def
    replicate_16)

lemma ex_sum:
  "layers_sum [ex_layer0, ex_layer1] ! 8 ! 8 = Fin 2"
  by (simp add: layers_sum_def ex_layer0_def ex_layer1_def replicate_16 fsum_def upt_16)

lemma fsum_Fin: "fsum (map Fin xs) = Fin (sum_list xs)"
  by (induction xs) (simp_all add: fsum_def)

lemma foldl_fmax_Fin: "foldl fmax (Fin a) (map Fin ys) = Fin (fold max ys a)"
  by (induction ys arbitrary: a) (simp_all add: fmax_def max_def)

lemma amax_Fin:
  assumes "concat m \<noteq> []"
  shows "amax (map (map Fin) m) = Inr (Fin (Max (set (concat m))))"
proof -
  from assms obtain x xs where c: "concat m = x # xs" by (cases "concat m") auto
  have cc: "concat (map (map Fin) m) = map Fin (concat m)" by (simp add: map_concat)
  have mx: "fold max xs x = Max (set (concat m))"
    unfolding c by (simp only: Max.set_eq_fold)
  have "amax (map (map Fin) m) = amax_list (map Fin (x # xs))"
    unfolding amax_def cc c ..
  also have "\<dots> = Inr (Fin (fold max xs x))"
    by (simp add: amax_list_def foldl_fmax_Fin)
  finally show ?thesis
    by (simp only: mx)
qed

lemma map2_map_map_image:
  "map2 (map2 f) (map (map p) m) (map (map q) m) = map (map (\<lambda>x. f (p x) (q x))) m"
  by (induction m) (simp_all add: map2_map_map)

lemma zip_map_same: "zip (map p a) (map q a) = map (\<lambda>x. (p x, q x)) a"
  by (induction a) simp_all

lemma map2_zip_image:
  "map2 zip (map (map p) m) (map (map q) m) = map (map (\<lambda>x. (p x, q x))) m"
  by (induction m) (simp_all add: zip_map_same)

lemma layer_step_closed:
  fixes m :: "real list list"
  assumes n: "Suc n < K" and ts: "ts ! n = ps ! n * mx / 100"
  shows "layer_step (map (map Fin) m) (Fin mx) ps
           (map (\<lambda>k. map (map (\<lambda>x. Fin (layer_value ts n k x))) m) [0..<K], Fin (lower_thresh ts n))
           (Suc n) =
         (map (\<lambda>k. map (map (\<lambda>x. Fin (layer_value ts (Suc n) k x))) m) [0..<K],
          Fin (lower_thresh ts (Suc n)))"
proof -
  let ?F = "\<lambda>n k. map (map (\<lambda>x. Fin (layer_value ts n k x))) m"
  have t: "fdiv (fmul (Fin (ps ! n)) (Fin mx)) (Fin 100) = Fin (ts ! n)"
    by (simp add: ts)
  have mask: "map (map (\<lambda>x. fgt x (Fin (ts ! n)))) (map (map Fin) m) = map (map (\<lambda>x. ts ! n < x)) m"
    by (simp add: fgt_def)
  have l0: "map2 (map2 (\<lambda>b x. if b then fsub (Fin (ts ! n)) (Fin (lower_thresh ts n)) else x))
              (map (map (\<lambda>x. ts ! n < x)) m) (?F n n) = ?F (Suc n) n"
    unfolding map2_map_map_image
    by (simp add: layer_value_def fsub_def)
  have l1: "map2 (map2 (\<lambda>b xy. if b then fsub (snd xy) (Fin (ts ! n)) else fst xy))
              (map (map (\<lambda>x. ts ! n < x)) m) (map2 zip (?F n (Suc n)) (map (map Fin) m)) =
            ?F (Suc n) (Suc n)"
    unfolding map2_zip_image map2_map_map_image
    by (simp add: layer_value_def top_layer_def fsub_def)
  have upd: "(map (?F n) [0..<K])[n := ?F (Suc n) n, Suc n := ?F (Suc n) (Suc n)] =
             map (?F (Suc n)) [0..<K]"
  proof (rule nth_equalityI)
    show "length ((map (?F n) [0..<K])[n := ?F (Suc n) n, Suc n := ?F (Suc n) (Suc n)]) =
          length (map (?F (Suc n)) [0..<K])" by simp
  next
    fix i
    assume "i < length ((map (?F n) [0..<K])[n := ?F (Suc n) n, Suc n := ?F (Suc n) (Suc n)])"
    then have i: "i < K" by simp
    consider "i = n" | "i = Suc n" | "i < n" | "Suc n < i" by linarith
    then show "(map (?F n) [0..<K])[n := ?F (Suc n) n, Suc n := ?F (Suc n) (Suc n)] ! i =
               map (?F (Suc n)) [0..<K] ! i"
      using i n by cases (simp_all add: nth_list_update layer_value_def)
  qed
  have nth_n: "map (?F n) [0..<K] ! n = ?F n n" and
    nth_Sn: "(map (?F n) [0..<K])[n := v] ! Suc n = ?F n (Suc n)" for v
    using n by simp_all
  show ?thesis
    unfolding layer_step_def Let_def fst_conv snd_conv diff_Suc_1 t mask nth_n nth_Sn l0 l1 upd
    by (simp add: lower_thresh_def)
qed

lemma layer_loop_closed:
  fixes m :: "real list list" and mx :: real and ps :: "real list"
  assumes "n < K" and "n \<le> length ps"
  defines "ts \<equiv> map (\<lambda>p. p * mx / 100) ps"
  shows "foldl (layer_step (map (map Fin) m) (Fin mx) ps)
           (map (\<lambda>k. map (map (\<lambda>x. Fin (layer_value ts 0 k x))) m) [0..<K], Fin 0) [1..<Suc n] =
         (map (\<lambda>k. map (map (\<lambda>x. Fin (layer_value ts n k x))) m) [0..<K],
          Fin (lower_thresh ts n))"
  using assms(1,2)
proof (induction n)
  case 0
  then show ?case by (simp add: lower_thresh_def)
next
  case (Suc n)
  then have IH: "foldl (layer_step (map (map Fin) m) (Fin mx) ps)
           (map (\<lambda>k. map (map (\<lambda>x. Fin (layer_value ts 0 k x))) m) [0..<K], Fin 0) [1..<Suc n] =
         (map (\<lambda>k. map (map (\<lambda>x. Fin (layer_value ts n k x))) m) [0..<K],
          Fin (lower_thresh ts n))"
    by simp
  from Suc.prems have tsn: "ts ! n = ps ! n * mx / 100"
    by (simp add: ts_def)
  have "[1..<Suc (Suc n)] = [1..<Suc n] @ [Suc n]" by simp
  then show ?case
    using layer_step_closed [OF Suc.prems(1) tsn, of m] by (simp only: foldl_append IH foldl.simps)
qed

lemma layer_value_sum:
  assumes "\<forall>i. Suc i < n \<longrightarrow> ts ! i \<le> ts ! Suc i"
  shows "(\<Sum>k\<leftarrow>[0..<Suc n]. layer_value ts n k x) = x"
  using assms
proof (induction n)
  case 0
  then show ?case by (simp add: layer_value_def top_layer_def)
next
  case (Suc n)
  then have IH: "(\<Sum>k\<leftarrow>[0..<Suc n]. layer_value ts n k x) = x" by simp
  have low: "(\<Sum>k\<leftarrow>[0..<n]. layer_value ts (Suc n) k x) = (\<Sum>k\<leftarrow>[0..<n]. layer_value ts n k x)"
    by (rule arg_cong [where f = sum_list]) (simp add: layer_value_def)
  have mono: "0 < n \<Longrightarrow> ts ! (n - 1) \<le> ts ! n"
    using Suc.prems by (cases n) simp_all
  have top: "layer_value ts (Suc n) n x + layer_value ts (Suc n) (Suc n) x = layer_value ts n n x"
    using mono by (auto simp: layer_value_def top_layer_def lower_thresh_def)
  have "(\<Sum>k\<leftarrow>[0..<Suc (Suc n)]. layer_value ts (Suc n) k x) =
        (\<Sum>k\<leftarrow>[0..<n]. layer_value ts (Suc n) k x) +
        (layer_value ts (Suc n) n x + layer_value ts (Suc n) (Suc n) x)"
    by simp
  also have "\<dots> = (\<Sum>k\<leftarrow>[0..<Suc n]. layer_value ts n k x)"
    by (simp add: low top)
  finally show ?case by (simp only: IH)
qed

lemma layers_sum_closed:
  fixes m :: "real list list"
  assumes "\<And>x. (\<Sum>k\<leftarrow>[0..<Suc n]. f k x) = x"
  shows "layers_sum (map (\<lambda>k. map (map (\<lambda>x. Fin (f k x))) m) [0..<Suc n]) = map (map Fin) m"
proof -
  have hd: "map (\<lambda>k. map (map (\<lambda>x. Fin (f k x))) m) [0..<Suc n] =
        map (map (\<lambda>x. Fin (f 0 x))) m # map (\<lambda>k. map (map (\<lambda>x. Fin (f k x))) m) [1..<Suc n]"
    by (simp add: upt_conv_Cons del: upt_Suc)
  have pix: "fsum (map (\<lambda>l. l ! r ! c) (map (\<lambda>k. map (map (\<lambda>x. Fin (f k x))) m) [0..<Suc n])) =
             Fin (m ! r ! c)" if "r < length m" "c < length (m ! r)" for r c
  proof -
    have "map (\<lambda>l. l ! r ! c) (map (\<lambda>k. map (map (\<lambda>x. Fin (f k x))) m) [0..<Suc n]) =
          map Fin (map (\<lambda>k. f k (m ! r ! c)) [0..<Suc n])"
      using that by simp
    then show ?thesis
      by (simp only: fsum_Fin assms)
  qed
  have "layers_sum (map (\<lambda>k. map (map (\<lambda>x. Fin (f k x))) m) [0..<Suc n]) =
        map (\<lambda>r. map (\<lambda>c. fsum (map (\<lambda>l. l ! r ! c)
              (map (\<lambda>k. map (map (\<lambda>x. Fin (f k x))) m) [0..<Suc n])))
          [0..<length (m ! r)]) [0..<length m]"
    unfolding layers_sum_def hd [symmetric]
    by (subst hd) (simp del: upt_Suc)
  also have "\<dots> = map (\<lambda>r. map (\<lambda>c. Fin (m ! r ! c)) [0..<length (m ! r)]) [0..<length m]"
    by (intro map_cong [OF refl]) (simp only: pix set_upt atLeastLessThan_iff)
  also have "\<dots> = map (map Fin) m"
    by (rule nth_equalityI) (auto intro!: nth_equalityI)
  finally show ?thesis .
qed

lemma initial_layers:
  fixes m :: "real list list"
  shows "map (map Fin) m # replicate n (map (map (\<lambda>_. Fin 0)) (map (map Fin) m)) =
         map (\<lambda>k. map (map (\<lambda>x. Fin (layer_value ts 0 k x))) m) [0..<Suc n]"
proof -
  have "map (\<lambda>k. map (map (\<lambda>x. Fin (layer_value ts 0 k x))) m) [0..<Suc n] =
        map (map (\<lambda>x. Fin (layer_value ts 0 0 x))) m #
        map (\<lambda>k. map (map (\<lambda>x. Fin (layer_value ts 0 (Suc k) x))) m) [0..<n]"
    by (simp only: map_upt_Suc list.map)
  also have "\<dots> = map (map Fin) m # map (\<lambda>k. map (map (\<lambda>x. Fin 0)) m) [0..<n]"
    by (simp add: layer_value_def top_layer_def)
  also have "\<dots> = map (map Fin) m # replicate n (map (map (\<lambda>_. Fin 0)) (map (map Fin) m))"
    by (simp add: map_replicate_const comp_def)
  finally show ?thesis by simp
qed

lemma layer_morphs_sum:
  fixes m :: "real list list"
  assumes ne: "concat m \<noteq> []" and nonneg: "0 \<le> Max (set (concat m))"
  shows "\<exists>layers. layer_morphs (map (map Fin) m) ps = Inr layers \<and>
           length layers = length ps + 1 \<and> layers_sum layers = map (map Fin) m"
proof -
  define mx where "mx = Max (set (concat m))"
  define ts where "ts = map (\<lambda>p. p * mx / 100) (sort ps)"
  define layers where
    "layers = map (\<lambda>k. map (map (\<lambda>x. Fin (layer_value ts (length ps) k x))) m) [0..<Suc (length ps)]"
  have loop: "foldl (layer_step (map (map Fin) m) (Fin mx) (sort ps))
           (map (\<lambda>k. map (map (\<lambda>x. Fin (layer_value ts 0 k x))) m) [0..<Suc (length ps)], Fin 0)
           [1..<Suc (length ps)] = (layers, Fin (lower_thresh ts (length ps)))"
    unfolding ts_def layers_def by (rule layer_loop_closed) simp_all
  have eq: "layer_morphs (map (map Fin) m) ps = Inr layers"
    unfolding layer_morphs_def Let_def amax_Fin [OF ne] mx_def [symmetric] bind_err_def sum.case
      Suc_eq_plus1 [symmetric] diff_Suc_1 initial_layers [of m "length ps" ts] loop fst_conv ..
  have sorted_ts: "\<forall>i. Suc i < length ps \<longrightarrow> ts ! i \<le> ts ! Suc i"
  proof (intro allI impI)
    fix i assume i: "Suc i < length ps"
    then have "sort ps ! i \<le> sort ps ! Suc i"
      by (intro sorted_nth_mono) simp_all
    with nonneg i show "ts ! i \<le> ts ! Suc i"
      by (simp add: ts_def mx_def mult_right_mono divide_right_mono)
  qed
  have "layers_sum layers = map (map Fin) m"
    unfolding layers_def by (rule layers_sum_closed) (rule layer_value_sum [OF sorted_ts])
  with eq show ?thesis by (simp add: layers_def)
qed

lemma map_err_length: "map_err f xs = Inr ys \<Longrightarrow> length ys = length xs"
  by (induction xs arbitrary: ys) (auto split: sum.splits)

lemma amax_Inr_nonempty: "amax img = Inr v \<Longrightarrow> concat img \<noteq> []"
  by (cases "concat img") (simp_all add: amax_def amax_list_def)

lemma ex_ops_simps:
  "linalg_inv ex_ops = ex_inv"
  "prox_uncentered_symmetry ex_ops = (\<lambda>img c. Inr img)"
  "prox_weighted_monotonic ex_ops = (\<lambda>shape c g img. Inr (concat img))"
  "starlet ex_ops = (\<lambda>img. Inr ([[img, img]], [Fin 1, Fin 1]))"
  "mad_wavelet ex_ops = (\<lambda>imgs. Inr (map (\<lambda>_. Fin 1) imgs))"
  by (simp_all add: ex_ops_def)

lemma ex_boxed:
  "extract_from3 [(0, 1), (- 8, 8), (- 8, 8)] [[[Fin 1, Fin (1 / 2)]]] = [ex_morph]"
  by (simp add: extract_from3_def extract_from_def pixel_or_zero_def Let_def upt_16 ex_morph_def
      replicate_16)

lemma ex_best_fit:
  "get_best_fit_seds ex_ops [ex_layer0, ex_layer1] [ex_morph] = Inr [[Fin (1 / 4)], [Fin (3 / 4)]]"
  by (simp add: get_best_fit_seds_def matmul_T_def bind_err_def Let_def ex_ops_simps ex_inv_def
      fsum_def fsub_def ex_layer0_def ex_layer1_def ex_morph_def replicate_16)

lemma ex_multi:
  "init_multicomponent_source ex_ops () ex_frame [ex_obs] (Some [[Fin 1, Fin (1 / 2)]])
     (Some (Fin (1 / 4))) (Some [25]) (Fin 1) False False (Fin (1 / 5)) =
   Some (Inr ([[Fin (1 / 4)], [Fin (3 / 4)]], [ex_layer0, ex_layer1], [(0, 1), (- 8, 8), (- 8, 8)]))"
  by (simp add: init_multicomponent_source_def ex_extended ex_layers ex_best_fit ex_boxed
      bind_res_def bind_opt_def ex_obs_simps)





lemma ex_morph_real:
  "ex_morph = map (map Fin) ((replicate 16 (replicate 16 0))[8 := (replicate 16 0)[8 := 1, 9 := 1 / 2]])"
  by (simp add: ex_morph_def replicate_16)

lemma ex_morph_max:
  "0 \<le> Max (set (concat ((replicate 16 (replicate 16 (0::real)))[8 := (replicate 16 0)[8 := 1, 9 := 1 / 2]])))"
  by (rule Max_ge) (simp_all add: replicate_16)

lemma weights_rms_missing:
  "\<exists>ob \<in> set observations. weights ob = None \<Longrightarrow>
   weights_rms observations =
     Inl (AttributeError ''Observation.weights missing! Please set inverse variance weights'')"
proof (induction observations)
  case Nil
  then show ?case by simp
next
  case (Cons ob obs)
  show ?case
  proof (cases "weights ob")
    case None
    then show ?thesis by (simp add: weights_rms_def)
  next
    case (Some ws)
    with Cons.prems have "\<exists>ob \<in> set obs. weights ob = None" by auto
    from Cons.IH [OF this] Some show ?thesis by (simp add: weights_rms_def)
  qed
qed


lemma map_err_all_Inr: "\<forall>x \<in> set xs. f x = Inr (g x) \<Longrightarrow> map_err f xs = Inr (map g xs)"
  by (induction xs) simp_all

lemma map_err_nth:
  "\<forall>c \<in> set cs. c < length xs \<Longrightarrow> map_err (\<lambda>c. py_index xs (int c)) cs = Inr (map (\<lambda>c. xs ! c) cs)"
  by (intro map_err_all_Inr) (simp add: py_index_def)

lemma map2_map_right: "map2 f cs (map g cs) = map (\<lambda>c. f c (g c)) cs"
  by (induction cs) simp_all

lemma coadd_step_ok:
  assumes j: "j < length seds" "j < length bg_rmses"
    and len: "length (bg_rmses ! j) = length (seds ! j)"
    and imgs: "channel_images ops obs_ref ob = Inr imgs" "length (seds ! j) \<le> length imgs"
    and good: "\<not> list_ex (\<lambda>r. fle r (Fin 0)) (bg_rmses ! j)"
  shows "coadd_step ops obs_ref seds bg_rmses (j, ob) acc =
     Inr \<lparr> positive_img = positive_img acc @
             map (\<lambda>c. imgs ! c) (filter (\<lambda>c. fgt (seds ! j ! c) (Fin 0)) [0..<length (seds ! j)]),
           positive_bgrms = positive_bgrms acc @
             map (\<lambda>c. bg_rmses ! j ! c) (filter (\<lambda>c. fgt (seds ! j ! c) (Fin 0)) [0..<length (seds ! j)]),
           acc_weights = acc_weights acc @
             map (\<lambda>c. fdiv (seds ! j ! c) (fmul (bg_rmses ! j ! c) (bg_rmses ! j ! c)))
               (filter (\<lambda>c. fgt (seds ! j ! c) (Fin 0)) [0..<length (seds ! j)]),
           jacobian_args = jacobian_args acc @
             map (\<lambda>c. fdiv (fmul (seds ! j ! c) (seds ! j ! c)) (fmul (bg_rmses ! j ! c) (bg_rmses ! j ! c)))
               (filter (\<lambda>c. fgt (seds ! j ! c) (Fin 0)) [0..<length (seds ! j)]) \<rparr>"
proof -
  let ?pos = "filter (\<lambda>c. fgt (seds ! j ! c) (Fin 0)) [0..<length (seds ! j)]"
  have pos_lt: "\<forall>c \<in> set ?pos. c < length (seds ! j)" by simp
  have s: "py_index seds (int j) = Inr (seds ! j)" "py_index bg_rmses (int j) = Inr (bg_rmses ! j)"
    using j by (simp_all add: py_index_def)
  have im: "(if is_Observation ob
           then map_err (\<lambda>c. py_index (images ob) (int c)) ?pos
           else map_err (\<lambda>c. bind_err (interpolate_observation ops ob (frame obs_ref))
                                 (\<lambda>imgs. py_index imgs (int c))) ?pos) =
          Inr (map (\<lambda>c. imgs ! c) ?pos)"
  proof (cases "is_Observation ob")
    case True
    with imgs have "images ob = imgs" by (simp add: channel_images_def)
    with True imgs(2) pos_lt show ?thesis by (simp add: map_err_nth)
  next
    case False
    with imgs have i: "interpolate_observation ops ob (frame obs_ref) = Inr imgs"
      by (simp add: channel_images_def)
    have "map_err (\<lambda>c. py_index imgs (int c)) ?pos = Inr (map (\<lambda>c. imgs ! c) ?pos)"
      using imgs(2) pos_lt by (intro map_err_nth) auto
    with False show ?thesis by (simp add: i bind_err_def)
  qed
  have rm: "map_err (\<lambda>c. py_index (bg_rmses ! j) (int c)) ?pos = Inr (map (\<lambda>c. bg_rmses ! j ! c) ?pos)"
    using len by (intro map_err_nth) auto
  show ?thesis
    using good im rm by (simp add: coadd_step_def Let_def s bind_err_def map2_map_right)
qed

lemma coadd_step_bad:
  assumes "j < length seds" "j < length bg_rmses" "list_ex (\<lambda>r. fle r (Fin 0)) (bg_rmses ! j)"
  shows "coadd_step ops obs_ref seds bg_rmses (j, ob) acc =
         Inl (ValueError ''bg_rms must be greater than zero in all channels'')"
  using assms by (simp add: coadd_step_def bind_err_def py_index_def)

lemma coadd_loop_bad:
  assumes "\<forall>io \<in> set ios. fst io < length seds \<and> fst io < length bg_rmses \<and>
             length (bg_rmses ! fst io) = length (seds ! fst io) \<and>
             (\<exists>imgs. channel_images ops obs_ref (snd io) = Inr imgs \<and>
                     length (seds ! fst io) \<le> length imgs)"
    and "\<exists>io \<in> set ios. list_ex (\<lambda>r. fle r (Fin 0)) (bg_rmses ! fst io)"
  shows "coadd_loop ops obs_ref seds bg_rmses ios acc =
         Inl (ValueError ''bg_rms must be greater than zero in all channels'')"
  using assms
proof (induction ios arbitrary: acc)
  case Nil
  then show ?case by simp
next
  case (Cons io ios)
  obtain j ob where io: "io = (j, ob)" by (cases io)
  show ?case
  proof (cases "list_ex (\<lambda>r. fle r (Fin 0)) (bg_rmses ! j)")
    case True
    with Cons.prems(1) show ?thesis
      by (simp add: io coadd_step_bad bind_err_def)
  next
    case False
    with Cons.prems(2) have later: "\<exists>io \<in> set ios. list_ex (\<lambda>r. fle r (Fin 0)) (bg_rmses ! fst io)"
      by (simp add: io)
    from Cons.prems(1) obtain imgs where
      "j < length seds" "j < length bg_rmses" "length (bg_rmses ! j) = length (seds ! j)"
      "channel_images ops obs_ref ob = Inr imgs" "length (seds ! j) \<le> length imgs"
      by (auto simp: io)
    from coadd_step_ok [OF this False]
    obtain acc' where "coadd_step ops obs_ref seds bg_rmses (j, ob) acc = Inr acc'" by blast
    moreover from Cons.prems(1) later
    have "coadd_loop ops obs_ref seds bg_rmses ios acc' =
         Inl (ValueError ''bg_rms must be greater than zero in all channels'')"
      by (intro Cons.IH) simp_all
    ultimately show ?thesis by (simp add: io bind_err_def)
  qed
qed











lemma coadd_step_bad_never_returns:
  assumes "j < length bg_rmses" "list_ex (\<lambda>r. fle r (Fin 0)) (bg_rmses ! j)"
  shows "\<exists>e. coadd_step ops obs_ref seds bg_rmses (j, ob) acc = Inl e"
  using assms by (cases "py_index seds (int j)") (simp_all add: coadd_step_def bind_err_def py_index_def)

lemma coadd_loop_never_returns:
  assumes "\<exists>io \<in> set ios. fst io < length bg_rmses \<and> list_ex (\<lambda>r. fle r (Fin 0)) (bg_rmses ! fst io)"
  shows "\<exists>e. coadd_loop ops obs_ref seds bg_rmses ios acc = Inl e"
  using assms
proof (induction ios arbitrary: acc)
  case Nil
  then show ?case by simp
next
  case (Cons io ios)
  obtain j ob where io: "io = (j, ob)" by (cases io)
  show ?case
  proof (cases "coadd_step ops obs_ref seds bg_rmses io acc")
    case (Inl e)
    then show ?thesis by (simp add: bind_err_def)
  next
    case (Inr acc')
    with coadd_step_bad_never_returns [of j bg_rmses ops obs_ref seds ob acc]
    have "\<not> (j < length bg_rmses \<and> list_ex (\<lambda>r. fle r (Fin 0)) (bg_rmses ! j))"
      by (auto simp: io)
    with Cons.prems have "\<exists>io \<in> set ios. fst io < length bg_rmses \<and>
        list_ex (\<lambda>r. fle r (Fin 0)) (bg_rmses ! fst io)"
      by (auto simp: io)
    from Cons.IH [OF this, of acc'] Inr show ?thesis by (simp add: bind_err_def)
  qed
qed

section \<open>Properties\<close>

text \<open>
  C1 (amended). Whenever \<open>init_multicomponent_source\<close> returns, for a morphology
  from \<open>init_extended_source\<close> with finite pixel values and a non-negative maximum,
  the \<open>K = len(flux_percentiles) + 1\<close> layers it builds sum pixel by pixel to that
  morphology before they are renormalised. The layers it returns are these layers, each
  divided by its own maximum.
\<close>

theorem multicomponent_layers_sum_before_renormalising:
  fixes m :: "real list list"
  assumes ext: "init_extended_source ops sky_coord mf observations coadd bg_cutoff thresh
                  symmetric monotonic min_grad = Some (Inr (sed, map (map Fin) m, bbox))"
    and multi: "init_multicomponent_source ops sky_coord mf observations coadd bg_cutoff
                  flux_percentiles thresh symmetric monotonic min_grad = Some (Inr (seds, morphs, bbox'))"
    and nonneg: "0 \<le> Max (set (concat m))"
  shows "\<exists>layers. length layers = length (case flux_percentiles of None \<Rightarrow> [25] | Some ps \<Rightarrow> ps) + 1
           \<and> layers_sum layers = map (map Fin) m
           \<and> renormalize layers = Inr morphs \<and> length morphs = length layers"
proof -
  define ps where "ps = (case flux_percentiles of None \<Rightarrow> [25] | Some ps \<Rightarrow> ps)"
  from multi have mm: "multicomponent_morphs (map (map Fin) m) ps = Inr morphs"
    unfolding init_multicomponent_source_def ext Let_def ps_def [symmetric]
    by (auto simp: bind_res_def bind_opt_def split: option.splits sum.splits)
  then obtain layers where l: "layer_morphs (map (map Fin) m) ps = Inr layers"
    and r: "renormalize layers = Inr morphs"
    by (auto simp: multicomponent_morphs_def bind_err_def split: sum.splits)
  from l have "amax (map (map Fin) m) \<noteq> Inl e" for e
    by (auto simp: layer_morphs_def bind_err_def Let_def)
  then have "concat (map (map Fin) m) \<noteq> []"
    by (cases "amax (map (map Fin) m)") (auto dest: amax_Inr_nonempty)
  then have ne: "concat m \<noteq> []" by (simp add: map_concat)
  from layer_morphs_sum [OF ne nonneg, of ps] l
  have "length layers = length ps + 1" "layers_sum layers = map (map Fin) m" by auto
  moreover from r have "length morphs = length layers"
    unfolding renormalize_def by (rule map_err_length)
  ultimately show ?thesis using r unfolding ps_def by blast
qed

text \<open>
  The theorem at the worked example: the hypotheses hold there, and the two layers
  before renormalisation sum to the trimmed morphology.
\<close>

theorem multicomponent_layers_sum_witness:
  "init_extended_source ex_ops () ex_frame [ex_obs] (Some [[Fin 1, Fin (1 / 2)]]) (Some (Fin (1 / 4)))
     (Fin 1) False False (Fin (1 / 5)) = Some (Inr ([Fin 1], ex_morph, [(0, 1), (- 8, 8), (- 8, 8)]))
   \<and> init_multicomponent_source ex_ops () ex_frame [ex_obs] (Some [[Fin 1, Fin (1 / 2)]])
     (Some (Fin (1 / 4))) (Some [25]) (Fin 1) False False (Fin (1 / 5)) =
     Some (Inr ([[Fin (1 / 4)], [Fin (3 / 4)]], [ex_layer0, ex_layer1], [(0, 1), (- 8, 8), (- 8, 8)]))
   \<and> (\<exists>layers. length layers = 2 \<and> layers_sum layers = ex_morph
         \<and> renormalize layers = Inr [ex_layer0, ex_layer1])"
  using multicomponent_layers_sum_before_renormalising
    [OF ex_extended [unfolded ex_morph_real] ex_multi ex_morph_max]
  by (auto simp add: ex_extended ex_multi ex_morph_real numeral_2_eq_2)

text \<open>
  C1 as stated fails: the layers that \<open>init_multicomponent_source\<close> returns for the
  worked example are peak-normalised, and at the centre pixel they sum to 2 where the
  morphology is 1. The refitted SEDs, \<open>1/4\<close> and \<open>3/4\<close>, carry the amplitudes.
\<close>

theorem returned_layers_do_not_sum_to_morphology:
  "init_extended_source ex_ops () ex_frame [ex_obs] (Some [[Fin 1, Fin (1 / 2)]]) (Some (Fin (1 / 4)))
     (Fin 1) False False (Fin (1 / 5)) = Some (Inr ([Fin 1], ex_morph, [(0, 1), (- 8, 8), (- 8, 8)]))
   \<and> init_multicomponent_source ex_ops () ex_frame [ex_obs] (Some [[Fin 1, Fin (1 / 2)]])
     (Some (Fin (1 / 4))) (Some [25]) (Fin 1) False False (Fin (1 / 5)) =
     Some (Inr ([[Fin (1 / 4)], [Fin (3 / 4)]], [ex_layer0, ex_layer1], [(0, 1), (- 8, 8), (- 8, 8)]))
   \<and> layers_sum [ex_layer0, ex_layer1] ! 8 ! 8 = Fin 2 \<and> ex_morph ! 8 ! 8 = Fin 1
   \<and> layers_sum [ex_layer0, ex_layer1] \<noteq> ex_morph"
proof -
  have e: "ex_morph ! 8 ! 8 = Fin 1" by (simp add: ex_morph_def replicate_16)
  from ex_sum e have "layers_sum [ex_layer0, ex_layer1] \<noteq> ex_morph" by auto
  with ex_extended ex_multi ex_sum e show ?thesis by simp
qed

text \<open>
  C2. For every morphology array, centre pixel, cutoff and threshold,
  \<open>trim_morphology\<close> returns (its loop ends). It raises only \<open>IndexError\<close>, when
  the centre is no index of the array; otherwise the box it returns spans a square of side
  \<open>16 * 2 ^ n\<close> for some \<open>n\<close> and contains the centre pixel.
\<close>

theorem trim_morphology_box:
  "\<exists>r. trim_morphology sky_coord mf morph bg_cutoff thresh = Some r \<and>
        (case r of
           Inl e \<Rightarrow> e = IndexError
         | Inr mb \<Rightarrow> good_box mf (get_pixel mf sky_coord) mb)"
proof -
  define pc where "pc = get_pixel mf sky_coord"
  have g0: "good_box mf pc (trim_to_box mf pc m 16)" for m
    using trim_to_box_good [of mf pc m 0] by simp
  have grow: "\<exists>n. grow_boxsize 16 sz = Some (16 * 2 ^ n)" for sz
    using grow_boxsize_pow2 [of 16 sz] by simp
  have g1: "\<exists>r. (case grow_boxsize 16 sz of None \<Rightarrow> None
              | Some boxsize \<Rightarrow> Some (Inr (trim_to_box mf pc m boxsize))) = Some r \<and>
             (case r of Inl e \<Rightarrow> e = IndexError | Inr mb \<Rightarrow> good_box mf pc mb)" for sz m
  proof -
    from grow [of sz] obtain n where "grow_boxsize 16 sz = Some (16 * 2 ^ n)" ..
    then show ?thesis by (simp add: trim_to_box_good)
  qed
  show ?thesis
    unfolding trim_morphology_def Let_def pc_def [symmetric]
    by (auto simp: g0 g1 dest: py_index2_Inl split: sum.split)
qed

text \<open>
  The theorem at the worked example, where the function returns a box of side 16.
\<close>

theorem trim_morphology_box_witness:
  "trim_morphology () ex_frame [[Fin 1, Fin (1 / 2)]] (Fin (1 / 4)) (Fin 1)
     = Some (Inr (ex_morph, [(0, 1), (- 8, 8), (- 8, 8)]))
   \<and> good_box ex_frame (0, 0) (ex_morph, [(0, 1), (- 8, 8), (- 8, 8)])"
  using trim_morphology_box [of "()" ex_frame "[[Fin 1, Fin (1 / 2)]]" "Fin (1 / 4)" "Fin 1"]
  by (simp add: ex_trim ex_frame_simps)




text \<open>
  C4. If the RMS vector of some observation has an entry that is zero or negative,
  \<open>build_sed_coadd\<close> never returns a coadd: the call raises. In a call whose
  arguments fit together the error is the \<open>ValueError\<close> of line 103; in a call
  whose arguments do not, an \<open>IndexError\<close> of an earlier line can come first.
\<close>

theorem build_sed_coadd_rejects_nonpositive_rms:
  assumes i: "i < length observations" "i < length bg_rmses"
    and bad: "\<exists>r \<in> set (bg_rmses ! i). fle r (Fin 0)"
  shows "(\<exists>e. build_sed_coadd ops seds bg_rmses observations = Inl e)
       \<and> (coadd_call_ok ops seds bg_rmses observations \<longrightarrow>
            build_sed_coadd ops seds bg_rmses observations =
            Inl (ValueError ''bg_rms must be greater than zero in all channels''))"
proof (intro conjI impI)
  have "(i, observations ! i) \<in> set (enumerate 0 observations)"
    using i by (simp add: in_set_enumerate_eq)
  with bad i have ex: "\<exists>io \<in> set (enumerate 0 observations). fst io < length bg_rmses \<and>
      list_ex (\<lambda>r. fle r (Fin 0)) (bg_rmses ! fst io)"
    by (auto simp: list_ex_iff intro!: bexI [of _ "(i, observations ! i)"])
  show "\<exists>e. build_sed_coadd ops seds bg_rmses observations = Inl e"
  proof (cases "find is_Observation observations")
    case None
    then show ?thesis by (simp add: build_sed_coadd_def)
  next
    case (Some obs_ref)
    from coadd_loop_never_returns [OF ex] obtain e where
      "coadd_loop ops obs_ref seds bg_rmses (enumerate 0 observations)
         \<lparr> positive_img = [], positive_bgrms = [], acc_weights = [], jacobian_args = [] \<rparr> = Inl e"
      by blast
    with Some show ?thesis by (simp add: build_sed_coadd_def bind_err_def)
  qed
next
  assume ok: "coadd_call_ok ops seds bg_rmses observations"
  from ok obtain obs_ref where ref: "find is_Observation observations = Some obs_ref"
    and lens: "length seds = length observations" "length bg_rmses = length observations"
    and wf: "\<forall>j < length observations.
            length (bg_rmses ! j) = length (seds ! j) \<and>
            (\<exists>imgs. channel_images ops obs_ref (observations ! j) = Inr imgs \<and>
                    length (seds ! j) \<le> length imgs)"
    by (auto simp: coadd_call_ok_def)
  have all: "\<forall>io \<in> set (enumerate 0 observations). fst io < length seds \<and> fst io < length bg_rmses \<and>
             length (bg_rmses ! fst io) = length (seds ! fst io) \<and>
             (\<exists>imgs. channel_images ops obs_ref (snd io) = Inr imgs \<and>
                     length (seds ! fst io) \<le> length imgs)"
    using wf lens by (auto simp: in_set_enumerate_eq)
  have "(i, observations ! i) \<in> set (enumerate 0 observations)"
    using i by (simp add: in_set_enumerate_eq)
  with bad have ex: "\<exists>io \<in> set (enumerate 0 observations). list_ex (\<lambda>r. fle r (Fin 0)) (bg_rmses ! fst io)"
    by (auto simp: list_ex_iff intro!: bexI [of _ "(i, observations ! i)"])
  show "build_sed_coadd ops seds bg_rmses observations =
         Inl (ValueError ''bg_rms must be greater than zero in all channels'')"
    unfolding build_sed_coadd_def ref option.case coadd_loop_bad [OF all ex]
    by (simp add: bind_err_def)
qed

text \<open>
  The theorem at the worked example with an RMS of zero.
\<close>

theorem build_sed_coadd_rejects_nonpositive_rms_witness:
  "coadd_call_ok ex_ops [[Fin 1]] [[Fin 0]] [ex_obs]
   \<and> build_sed_coadd ex_ops [[Fin 1]] [[Fin 0]] [ex_obs] =
       Inl (ValueError ''bg_rms must be greater than zero in all channels'')"
proof -
  have ok: "coadd_call_ok ex_ops [[Fin 1]] [[Fin 0]] [ex_obs]"
    by (simp add: coadd_call_ok_def channel_images_def ex_obs_simps)
  have bad: "\<exists>r \<in> set ([[Fin 0]] ! 0). fle r (Fin 0)" by (simp add: fle_def)
  from build_sed_coadd_rejects_nonpositive_rms [of 0 "[ex_obs]" "[[Fin 0]]", OF _ _ bad] ok
  show ?thesis by simp
qed



text \<open>
  C6. \<open>get_psf_sed\<close> returns the pixel SED divided channel by channel by the peaks
  of the PSF of the observation and multiplied by the peak of channel 0 of the PSF of
  the model frame, each factor only when that PSF exists (the first four statements).
  With an observation peak of \<open>[1.0]\<close> and a model-frame peak of \<open>2.0\<close> it
  returns the pixel SED times 2; \<open>get_pixel_sed\<close> returns the values of the channels
  at the pixel.
\<close>

theorem get_psf_sed_peak_correction:
  "(get_pixel_sed sky_coord obs = Inr sed \<and> psf (frame obs) = Some P \<and> map_err amax P = Inr peaks
      \<and> length peaks = length sed \<and> psf mf = Some Q \<and> py_index Q 0 = Inr ch \<and> amax ch = Inr t
     \<longrightarrow> get_psf_sed sky_coord obs mf = Inr (map2 (\<lambda>s p. fmul (fdiv s p) t) sed peaks))
   \<and> (get_pixel_sed sky_coord obs = Inr sed \<and> psf (frame obs) = Some P \<and> map_err amax P = Inr peaks
      \<and> length peaks = length sed \<and> psf mf = None
     \<longrightarrow> get_psf_sed sky_coord obs mf = Inr (map2 fdiv sed peaks))
   \<and> (get_pixel_sed sky_coord obs = Inr sed \<and> psf (frame obs) = None
      \<and> psf mf = Some Q \<and> py_index Q 0 = Inr ch \<and> amax ch = Inr t
     \<longrightarrow> get_psf_sed sky_coord obs mf = Inr (map (\<lambda>s. fmul s t) sed))
   \<and> (psf (frame obs) = None \<and> psf mf = None
     \<longrightarrow> get_psf_sed sky_coord obs mf = get_pixel_sed sky_coord obs)
   \<and> (get_pixel_sed sky_coord obs = Inr (map Fin raw) \<and> psf (frame obs) = Some P
      \<and> map_err amax P = Inr [Fin 1] \<and> psf mf = Some Q \<and> py_index Q 0 = Inr ch \<and> amax ch = Inr (Fin 2)
     \<longrightarrow> get_psf_sed sky_coord obs mf = Inr (map (\<lambda>x. Fin (x * 2)) raw))
   \<and> (get_pixel (frame obs) sky_coord = (py, px) \<and> 0 \<le> py \<and> 0 \<le> px
      \<and> (\<forall>img \<in> set (images obs). py < int (length img) \<and> px < int (length (img ! nat py)))
     \<longrightarrow> get_pixel_sed sky_coord obs = Inr (map (\<lambda>img. img ! nat py ! nat px) (images obs)))"
proof (intro conjI impI)
  assume a: "get_pixel_sed sky_coord obs = Inr (map Fin raw) \<and> psf (frame obs) = Some P
      \<and> map_err amax P = Inr [Fin 1] \<and> psf mf = Some Q \<and> py_index Q 0 = Inr ch \<and> amax ch = Inr (Fin 2)"
  have "np_inplace fdiv (map Fin raw) [Fin 1] = Inr (map Fin raw)"
    by (cases raw) (simp_all add: np_inplace_def comp_def)
  with a show "get_psf_sed sky_coord obs mf = Inr (map (\<lambda>x. Fin (x * 2)) raw)"
    by (simp add: get_psf_sed_def bind_err_def comp_def)
next
  assume a: "get_pixel (frame obs) sky_coord = (py, px) \<and> 0 \<le> py \<and> 0 \<le> px
      \<and> (\<forall>img \<in> set (images obs). py < int (length img) \<and> px < int (length (img ! nat py)))"
  then show "get_pixel_sed sky_coord obs = Inr (map (\<lambda>img. img ! nat py ! nat px) (images obs))"
    unfolding get_pixel_sed_def Let_def
    by (intro map_err_all_Inr) (simp add: py_index_def bind_err_def)
qed (auto simp add: get_psf_sed_def bind_err_def np_inplace_def split: sum.splits)

text \<open>
  The theorem at an observation whose pixel holds 3, with PSF peaks 1 and 2.
\<close>

theorem get_psf_sed_peak_correction_witness:
  "get_pixel_sed () (ex_obs\<lparr>frame := ex_frame\<lparr>psf := Some [[[Fin 1]]]\<rparr>, images := [[[Fin 3, Fin (1 / 2)]]]\<rparr>)
     = Inr [Fin 3]
   \<and> get_psf_sed () (ex_obs\<lparr>frame := ex_frame\<lparr>psf := Some [[[Fin 1]]]\<rparr>, images := [[[Fin 3, Fin (1 / 2)]]]\<rparr>)
       (ex_frame\<lparr>psf := Some [[[Fin 2]]]\<rparr>) = Inr [Fin 6]"
  using get_psf_sed_peak_correction
    [where sky_coord = "()"
       and obs = "ex_obs\<lparr>frame := ex_frame\<lparr>psf := Some [[[Fin 1]]]\<rparr>, images := [[[Fin 3, Fin (1 / 2)]]]\<rparr>"
       and mf = "ex_frame\<lparr>psf := Some [[[Fin 2]]]\<rparr>" and raw = "[3]" and P = "[[[Fin 1]]]"
       and Q = "[[[Fin 2]]]" and ch = "[[Fin 2]]" and py = 0 and px = 0, THEN conjunct2, THEN conjunct2,
     THEN conjunct2, THEN conjunct2]
  by (simp add: ex_frame_simps amax_def amax_list_def py_index_def)



text \<open>
  C8. In the constraint assembly of \<open>ExtendedSource\<close>, \<open>monotonic=True\<close> yields a
  monotonicity constraint with neighbour weight \<open>"angle"\<close>, \<open>monotonic=False\<close> yields
  no monotonicity constraint at all, and a string is used as the neighbour weight
  unchanged. In each case the rest of the chain is the optional symmetry constraint
  followed by positivity and max-normalisation.
\<close>

theorem extended_monotonic_shim:
  "extended_morph_constraint (PyBool True) symmetric g =
     ConstraintChain (MonotonicityConstraint (PyStr ''angle'') g #
       (if symmetric then [SymmetryConstraint] else []) @
       [PositivityConstraint, NormalizationConstraint ''max''])
   \<and> extended_morph_constraint (PyBool False) symmetric g =
     ConstraintChain ((if symmetric then [SymmetryConstraint] else []) @
       [PositivityConstraint, NormalizationConstraint ''max''])
   \<and> extended_morph_constraint (PyStr s) symmetric g =
     ConstraintChain (MonotonicityConstraint (PyStr s) g #
       (if symmetric then [SymmetryConstraint] else []) @
       [PositivityConstraint, NormalizationConstraint ''max''])"
  by (simp add: extended_morph_constraint_def monotonic_shim_def)

text \<open>
  The theorem at the default configuration of \<open>Extended\<close>.
\<close>

theorem extended_monotonic_shim_witness:
  "extended_morph_constraint (PyBool True) False (Fin (1 / 5)) =
     ConstraintChain [MonotonicityConstraint (PyStr ''angle'') (Fin (1 / 5)),
       PositivityConstraint, NormalizationConstraint ''max'']
   \<and> extended_morph_constraint (PyBool False) False (Fin (1 / 5)) =
     ConstraintChain [PositivityConstraint, NormalizationConstraint ''max'']
   \<and> extended_morph_constraint (PyStr ''flat'') False (Fin (1 / 5)) =
     ConstraintChain [MonotonicityConstraint (PyStr ''flat'') (Fin (1 / 5)),
       PositivityConstraint, NormalizationConstraint ''max'']"
  using extended_monotonic_shim [of False "Fin (1 / 5)" "''flat''"] by simp

text \<open>
  C9. \<open>MultiComponentSource.__init__\<close> passes \<open>coadd=None\<close> to the initialiser:
  its result does not depend on the coadd and the cutoff of the caller, and the
  detection image is rebuilt from the weights of the observations, so that an
  observation without weights makes the constructor raise even when a coadd and a
  cutoff are supplied.
\<close>

theorem multicomponent_ignores_supplied_coadd:
  "MultiComponentSource_init ops mf sky_coord observations thresh coadd bg_cutoff flux_percentiles
     symmetric monotonic shifting min_grad =
   MultiComponentSource_init ops mf sky_coord observations thresh None None flux_percentiles
     symmetric monotonic shifting min_grad
   \<and> (find is_Observation observations \<noteq> None
        \<and> map_err (\<lambda>ob. get_psf_sed sky_coord ob mf) observations = Inr seds \<and> seds \<noteq> []
        \<and> (\<exists>ob \<in> set observations. weights ob = None)
      \<longrightarrow> MultiComponentSource_init ops mf sky_coord observations thresh coadd bg_cutoff
            flux_percentiles symmetric monotonic shifting min_grad =
          Some (Inl (AttributeError ''Observation.weights missing! Please set inverse variance weights'')))"
proof (intro conjI impI)
  show "MultiComponentSource_init ops mf sky_coord observations thresh coadd bg_cutoff flux_percentiles
     symmetric monotonic shifting min_grad =
   MultiComponentSource_init ops mf sky_coord observations thresh None None flux_percentiles
     symmetric monotonic shifting min_grad"
    unfolding MultiComponentSource_init_def init_multicomponent_source_None [of _ _ _ _ bg_cutoff] ..
next
  assume a: "find is_Observation observations \<noteq> None
        \<and> map_err (\<lambda>ob. get_psf_sed sky_coord ob mf) observations = Inr seds \<and> seds \<noteq> []
        \<and> (\<exists>ob \<in> set observations. weights ob = None)"
  then have w: "weights_rms observations =
     Inl (AttributeError ''Observation.weights missing! Please set inverse variance weights'')"
    by (intro weights_rms_missing) simp
  from a have "init_extended_source ops sky_coord mf observations None bg_cutoff thresh True True min_grad =
      Some (Inl (AttributeError ''Observation.weights missing! Please set inverse variance weights''))"
    by (simp add: init_extended_source_def bind_opt_def detection_coadd_def w bind_err_def)
  with a show "MultiComponentSource_init ops mf sky_coord observations thresh coadd bg_cutoff
            flux_percentiles symmetric monotonic shifting min_grad =
          Some (Inl (AttributeError ''Observation.weights missing! Please set inverse variance weights''))"
    by (auto simp: MultiComponentSource_init_def init_multicomponent_source_def bind_res_def map_res_def)
qed

text \<open>
  The theorem at the worked example without weights: the supplied coadd and cutoff do
  not prevent the error.
\<close>

theorem multicomponent_ignores_supplied_coadd_witness:
  "MultiComponentSource_init ex_ops ex_frame () [ex_obs\<lparr>weights := None\<rparr>] (Fin 1)
     (Some [[Fin 1, Fin (1 / 2)]]) (Some (Fin (1 / 4))) (Some [25]) False (PyStr ''flat'') False (Fin (1 / 5)) =
   Some (Inl (AttributeError ''Observation.weights missing! Please set inverse variance weights''))"
  using multicomponent_ignores_supplied_coadd
    [of ex_ops ex_frame "()" "[ex_obs\<lparr>weights := None\<rparr>]" "Fin 1" "Some [[Fin 1, Fin (1 / 2)]]"
        "Some (Fin (1 / 4))" "Some [25]" False "PyStr ''flat''" False "Fin (1 / 5)" "[[Fin 1]]",
      THEN conjunct2]
  by (simp add: get_psf_sed_def get_pixel_sed_def bind_err_def py_index_def ex_obs_simps ex_frame_simps)

text \<open>
  C10. \<open>ExtendedSource.__init__\<close> and \<open>MultiComponentSource.__init__\<close> call the
  initialiser with \<open>symmetric=True\<close> and \<open>monotonic=True\<close> whatever their own
  arguments are: the SED, the morphology and the box of the source are those of that
  call, and two constructions that differ in \<open>symmetric\<close> and \<open>monotonic\<close> differ
  only in the constraint of the morphology parameter (and, for the multi-component
  source, in the two attributes that record the arguments).
\<close>

theorem builders_initialise_symmetric_monotonic:
  "map_res (\<lambda>s. (p_array (fc_sed s), p_array (fc_morph s), fc_bbox s))
     (ExtendedSource_init ops mf sky_coord observations coadd bg_cutoff thresh monotonic symmetric
        shifting min_grad) =
   init_extended_source ops sky_coord mf observations coadd bg_cutoff thresh True True min_grad
   \<and> ExtendedSource_init ops mf sky_coord observations coadd bg_cutoff thresh monotonic symmetric
        shifting min_grad =
     map_res (\<lambda>s. s\<lparr>fc_morph := (fc_morph s)\<lparr>p_constraint :=
          Some (extended_morph_constraint monotonic symmetric min_grad)\<rparr>\<rparr>)
       (ExtendedSource_init ops mf sky_coord observations coadd bg_cutoff thresh monotonic' symmetric'
          shifting min_grad)
   \<and> map_res (\<lambda>s. map (\<lambda>c. (p_array (fc_sed c), p_array (fc_morph c), fc_bbox c)) (mc_components s))
       (MultiComponentSource_init ops mf sky_coord observations thresh coadd bg_cutoff flux_percentiles
          symmetric monotonic shifting min_grad) =
     map_res (\<lambda>(seds, morphs, bbox). map (\<lambda>k. (seds ! k, morphs ! k, bbox)) [0..<length seds])
       (init_multicomponent_source ops sky_coord mf observations None bg_cutoff flux_percentiles thresh
          True True min_grad)
   \<and> MultiComponentSource_init ops mf sky_coord observations thresh coadd bg_cutoff flux_percentiles
        symmetric monotonic shifting min_grad =
     map_res (\<lambda>s. s\<lparr>mc_symmetric := symmetric, mc_monotonic := monotonic,
          mc_components := map (\<lambda>c. c\<lparr>fc_morph := (fc_morph c)\<lparr>p_constraint :=
            Some (multicomponent_morph_constraint monotonic symmetric min_grad)\<rparr>\<rparr>) (mc_components s)\<rparr>)
       (MultiComponentSource_init ops mf sky_coord observations thresh coadd bg_cutoff flux_percentiles
          symmetric' monotonic' shifting min_grad)"
proof (intro conjI)
  show "map_res (\<lambda>s. (p_array (fc_sed s), p_array (fc_morph s), fc_bbox s))
     (ExtendedSource_init ops mf sky_coord observations coadd bg_cutoff thresh monotonic symmetric
        shifting min_grad) =
   init_extended_source ops sky_coord mf observations coadd bg_cutoff thresh True True min_grad"
    unfolding ExtendedSource_init_def Let_def map_res_map_res
    by (rule map_res_id) auto
  show "ExtendedSource_init ops mf sky_coord observations coadd bg_cutoff thresh monotonic symmetric
        shifting min_grad =
     map_res (\<lambda>s. s\<lparr>fc_morph := (fc_morph s)\<lparr>p_constraint :=
          Some (extended_morph_constraint monotonic symmetric min_grad)\<rparr>\<rparr>)
       (ExtendedSource_init ops mf sky_coord observations coadd bg_cutoff thresh monotonic' symmetric'
          shifting min_grad)"
    unfolding ExtendedSource_init_def Let_def map_res_map_res
    by (rule arg_cong [where f = "\<lambda>f. map_res f _"]) (auto simp: fun_eq_iff)
  show "map_res (\<lambda>s. map (\<lambda>c. (p_array (fc_sed c), p_array (fc_morph c), fc_bbox c)) (mc_components s))
       (MultiComponentSource_init ops mf sky_coord observations thresh coadd bg_cutoff flux_percentiles
          symmetric monotonic shifting min_grad) =
     map_res (\<lambda>(seds, morphs, bbox). map (\<lambda>k. (seds ! k, morphs ! k, bbox)) [0..<length seds])
       (init_multicomponent_source ops sky_coord mf observations None bg_cutoff flux_percentiles thresh
          True True min_grad)"
    unfolding MultiComponentSource_init_def Let_def map_res_map_res
    by (rule arg_cong [where f = "\<lambda>f. map_res f _"]) (auto simp: fun_eq_iff)
  show "MultiComponentSource_init ops mf sky_coord observations thresh coadd bg_cutoff flux_percentiles
        symmetric monotonic shifting min_grad =
     map_res (\<lambda>s. s\<lparr>mc_symmetric := symmetric, mc_monotonic := monotonic,
          mc_components := map (\<lambda>c. c\<lparr>fc_morph := (fc_morph c)\<lparr>p_constraint :=
            Some (multicomponent_morph_constraint monotonic symmetric min_grad)\<rparr>\<rparr>) (mc_components s)\<rparr>)
       (MultiComponentSource_init ops mf sky_coord observations thresh coadd bg_cutoff flux_percentiles
          symmetric' monotonic' shifting min_grad)"
    unfolding MultiComponentSource_init_def Let_def map_res_map_res
    by (rule arg_cong [where f = "\<lambda>f. map_res f _"]) (auto simp: fun_eq_iff)
qed

end
